theory Spec2Isabelle
  imports Main "HOL-Library.Word"
begin

section \<open>Shared vocabulary\<close>

text \<open>
  The Go packages of the repository (tracker, limiter, auth) are embedded as pure
  functions. Everything a Go function does besides returning is made explicit:
  errors and panics are values of \<open>error\<close>, side effects (sleeping, logging, response
  headers, cookies, spawned goroutines) are appended to a list of \<open>event\<close>s, and every
  call into a library that is not part of the repository (bcrypt, AES-GCM, base64, JSON,
  xxhash, DNS, the database, the token bucket) is a function or a value handed to the model
  as a parameter, so that no property of a library is built into a definition.
  Durations are \<open>time.Duration\<close> values, that is nanoseconds.
\<close>

datatype error =
    ErrTooManyRequests
  | ErrEmptyIP
  | ErrNoRows
  | ErrMismatchedHashAndPassword
  | Panic
  | LibError string

datatype event =
    Sleep int
  | LogDebug string
  | LogInfo string
  | LogWarn string
  | LogErr string
  | WriteHeader nat
  | SetCookie string string
  | DeleteCookie string
  | SetHeader string string
  | Reserve string
  | CancelReservation
  | Go string

definition millisecond :: int where
  "millisecond = 1000000"

definition second :: int where
  "second = 1000 * millisecond"

definition hour :: int where
  "hour = 3600 * second"

section \<open>Strings\<close>

text \<open>
  A Go string is a byte sequence, modelled as \<open>string\<close>. \<open>strings.Split\<close> is only
  ever called with a one-byte separator (\<open>"$"\<close>), which is what \<open>strings_Split\<close>
  takes; on the empty string it returns one empty piece, as Go does.
\<close>

fun strings_Split :: "string \<Rightarrow> char \<Rightarrow> string list" where
  "strings_Split [] sep = [[]]"
| "strings_Split (x # xs) sep =
     (if x = sep then [] # strings_Split xs sep
      else (case strings_Split xs sep of
              [] \<Rightarrow> [[x]]
            | p # ps \<Rightarrow> (x # p) # ps))"

fun strings_Join :: "string list \<Rightarrow> string \<Rightarrow> string" where
  "strings_Join [] sep = []"
| "strings_Join [p] sep = p"
| "strings_Join (p # q # ps) sep = p @ sep @ strings_Join (q # ps) sep"

text \<open>
  \<open>strings.Map\<close> applies a function on runes to every code point. On a string of ASCII
  bytes, code points are bytes; the model is the byte-wise map and is faithful on ASCII
  strings (the theorems below say where they need that).
\<close>

type_synonym rune = int

definition strings_Map :: "(rune \<Rightarrow> rune) \<Rightarrow> string \<Rightarrow> string" where
  "strings_Map f s = map (\<lambda>c. char_of (f (of_char c))) s"

definition is_ascii :: "char \<Rightarrow> bool" where
  "is_ascii c = ((of_char c :: nat) < 128)"

section \<open>auth/pass.go: the structural transform of a bcrypt hash\<close>

definition hashVersion :: string where
  "hashVersion = ''1''"

definition hashCost :: nat where
  "hashCost = 4"

definition rotLower :: "rune \<Rightarrow> rune" where
  "rotLower r = (if r > of_char CHR ''m'' then r - 13 else r + 13)"

definition rotUpper :: "rune \<Rightarrow> rune" where
  "rotUpper r = (if r > of_char CHR ''M'' then r - 13 else r + 13)"

definition rotDigit :: "rune \<Rightarrow> rune" where
  "rotDigit r = (if r \<ge> of_char CHR ''5'' then r - 5 else r + 5)"

definition rot13 :: "rune \<Rightarrow> rune" where
  "rot13 r =
     (if r \<ge> of_char CHR ''a'' \<and> r \<le> of_char CHR ''z'' then rotLower r
      else if r \<ge> of_char CHR ''A'' \<and> r \<le> of_char CHR ''Z'' then rotUpper r
      else if r \<ge> of_char CHR ''0'' \<and> r \<le> of_char CHR ''9'' then rotDigit r
      else r)"

text \<open>
  \<open>alter\<close> and \<open>unalter\<close> index into the pieces of the split; an index out of range
  panics in Go, which is the \<open>Inl Panic\<close> of the model.
\<close>

definition alter :: "string \<Rightarrow> error + string" where
  "alter hash =
     (let pieces = tl (strings_Split hash CHR ''$'') in
      if length pieces < 3 then Inl Panic
      else
        let pieces = pieces[1 := ''12''];
            pieces = pieces[2 := strings_Map rot13 (pieces ! 2)]
        in Inr (''$'' @ hashVersion @ ''$'' @ strings_Join pieces ''$''))"

definition unalter :: "string \<Rightarrow> error + string" where
  "unalter hash =
     (let pieces = strings_Split hash CHR ''$'' in
      if length pieces < 2 then Inl Panic
      else
        let pieces = drop 2 pieces in
        if length pieces < 3 then Inl Panic
        else
          let pieces = pieces[1 := ''04''];
              pieces = pieces[2 := strings_Map rot13 (pieces ! 2)]
          in Inr (''$'' @ strings_Join pieces ''$''))"

section \<open>auth/pass.go: encryption, generation and verification\<close>

text \<open>
  The libraries \<open>generate\<close> and \<open>compare\<close> call are not part of the repository:
  \<open>golang.org/x/crypto/bcrypt\<close>, \<open>crypto/aes\<close>, \<open>crypto/cipher\<close> and
  \<open>encoding/base64\<close>. Their functions are the fields of \<open>auth_ext\<close>; a failing
  call returns an \<open>error\<close>. \<open>bcrypt_GenerateFromPassword\<close> takes, besides the
  password and the cost, the random salt it draws. The bytes that
  \<open>io.ReadFull(rand.Reader, nonce)\<close> delivers are the argument \<open>rnd\<close> of \<open>encrypt\<close>
  (\<open>Inl\<close> when the read fails), and the draw behind \<open>mrand.Intn\<close> is the argument of
  \<open>slowDown\<close>.
\<close>

record auth_ext =
  bcrypt_GenerateFromPassword :: "string \<Rightarrow> string \<Rightarrow> nat \<Rightarrow> error + string"
  bcrypt_CompareHashAndPassword :: "string \<Rightarrow> string \<Rightarrow> error option"
  aes_NewCipher :: "string \<Rightarrow> error option"
  cipher_NewGCM :: "string \<Rightarrow> error option"
  gcm_Seal :: "string \<Rightarrow> string \<Rightarrow> string \<Rightarrow> string"
  gcm_Open :: "string \<Rightarrow> string \<Rightarrow> string \<Rightarrow> error + string"
  base64_EncodeToString :: "string \<Rightarrow> string"
  base64_DecodeString :: "string \<Rightarrow> error + string"

text \<open>The standard nonce size of \<open>cipher.NewGCM\<close>, in bytes.\<close>

definition gcm_NonceSize :: nat where
  "gcm_NonceSize = 12"

record Auth =
  secret :: string
  key :: string
  pepper :: string

definition mrand_Intn :: "nat \<Rightarrow> nat \<Rightarrow> nat" where
  "mrand_Intn n draw = draw mod n"

definition slowDown :: "nat \<Rightarrow> event list" where
  "slowDown draw = (let num = 200 + int (mrand_Intn 50 draw) in [Sleep (num * millisecond)])"

definition encrypt :: "auth_ext \<Rightarrow> string \<Rightarrow> string \<Rightarrow> error + string \<Rightarrow> error + string" where
  "encrypt x secret_bytes k rnd =
     (case aes_NewCipher x k of
        Some err \<Rightarrow> Inl err
      | None \<Rightarrow>
     (case cipher_NewGCM x k of
        Some err \<Rightarrow> Inl err
      | None \<Rightarrow>
     (case rnd of
        Inl err \<Rightarrow> Inl err
      | Inr nonce \<Rightarrow>
          let ciphertext = nonce @ gcm_Seal x k nonce secret_bytes
          in Inr (base64_EncodeToString x ciphertext))))"

text \<open>
  \<open>unencoded[:nonceSize]\<close> panics when the decoded value is shorter than the nonce.
\<close>

definition decrypt :: "auth_ext \<Rightarrow> string \<Rightarrow> string \<Rightarrow> error + string" where
  "decrypt x secret_text k =
     (case base64_DecodeString x secret_text of
        Inl err \<Rightarrow> Inl err
      | Inr unencoded \<Rightarrow>
     (case aes_NewCipher x k of
        Some err \<Rightarrow> Inl err
      | None \<Rightarrow>
     (case cipher_NewGCM x k of
        Some err \<Rightarrow> Inl err
      | None \<Rightarrow>
          if length unencoded < gcm_NonceSize then Inl Panic
          else
            let nonce = take gcm_NonceSize unencoded;
                ciphertext = drop gcm_NonceSize unencoded
            in gcm_Open x k nonce ciphertext)))"

text \<open>
  \<open>generate\<close> and \<open>compare\<close> return their Go result together with the events of the
  call. Their debug log lines (which print elapsed times) are left out; the only event
  is the sleep of \<open>slowDown\<close>.
\<close>

definition generate ::
  "auth_ext \<Rightarrow> Auth \<Rightarrow> string \<Rightarrow> string \<Rightarrow> error + string \<Rightarrow> nat \<Rightarrow> (error + string) \<times> event list"
where
  "generate x a pass salt rnd draw =
     (let pass = pass @ ''.'' @ pepper a in
      case bcrypt_GenerateFromPassword x salt pass hashCost of
        Inl err \<Rightarrow> (Inl err, [])
      | Inr hashedPass \<Rightarrow>
     (case alter hashedPass of
        Inl err \<Rightarrow> (Inl err, [])
      | Inr hashedPass \<Rightarrow>
     (case encrypt x hashedPass (key a) rnd of
        Inl err \<Rightarrow> (Inl err, [])
      | Inr encodedPass \<Rightarrow> (Inr encodedPass, slowDown draw))))"

definition compare ::
  "auth_ext \<Rightarrow> Auth \<Rightarrow> string \<Rightarrow> string \<Rightarrow> nat \<Rightarrow> (bool \<times> error option) \<times> event list"
where
  "compare x a hash pass draw =
     (let pass = pass @ ''.'' @ pepper a in
      case decrypt x hash (key a) of
        Inl err \<Rightarrow> ((False, Some err), [])
      | Inr decodedPass \<Rightarrow>
     (case unalter decodedPass of
        Inl err \<Rightarrow> ((False, Some err), [])
      | Inr decodedPass \<Rightarrow>
     (case bcrypt_CompareHashAndPassword x decodedPass pass of
        Some err \<Rightarrow> ((False, Some err), [])
      | None \<Rightarrow> ((True, None), slowDown draw))))"

text \<open>
  A stand-in for the libraries, used to run the model on concrete inputs: the hash of a
  password is the bcrypt prefix followed by the password, the cipher and base64 are the
  identity, every key is accepted.
\<close>

definition plain_ext :: auth_ext where
  "plain_ext = \<lparr>
     bcrypt_GenerateFromPassword = (\<lambda>salt pass cost. Inr (''$2a$04$'' @ pass)),
     bcrypt_CompareHashAndPassword =
       (\<lambda>hash pass. if hash = ''$2a$04$'' @ pass then None else Some ErrMismatchedHashAndPassword),
     aes_NewCipher = (\<lambda>k. None),
     cipher_NewGCM = (\<lambda>k. None),
     gcm_Seal = (\<lambda>k nonce plaintext. plaintext),
     gcm_Open = (\<lambda>k nonce ciphertext. Inr ciphertext),
     base64_EncodeToString = (\<lambda>bytes. bytes),
     base64_DecodeString = (\<lambda>text. Inr text) \<rparr>"

definition demo_auth :: Auth where
  "demo_auth = \<lparr> secret = ''jwt-signing-key'', key = ''0123456789abcdef'', pepper = ''pepper'' \<rparr>"

text \<open>
  What the theorems assume of AES-GCM and base64 for a key and a nonce: the key is
  accepted, the nonce has the size the cipher asks for, opening a sealed message gives
  the message back, and decoding an encoded byte string gives the bytes back.
\<close>

definition crypto_contract :: "auth_ext \<Rightarrow> string \<Rightarrow> string \<Rightarrow> bool" where
  "crypto_contract x k nonce =
     (aes_NewCipher x k = None \<and> cipher_NewGCM x k = None
      \<and> length nonce = gcm_NonceSize
      \<and> (\<forall>plaintext. gcm_Open x k nonce (gcm_Seal x k nonce plaintext) = Inr plaintext)
      \<and> (\<forall>bytes. base64_DecodeString x (base64_EncodeToString x bytes) = Inr bytes))"

subsection \<open>The rotation and the transform\<close>

lemma rot13_invol: "rot13 (rot13 r) = r"
  by (auto simp: rot13_def rotLower_def rotUpper_def rotDigit_def)

lemma rot13_byte: "0 \<le> r \<Longrightarrow> r < 256 \<Longrightarrow> 0 \<le> rot13 r \<and> rot13 r < 256"
  by (auto simp: rot13_def rotLower_def rotUpper_def rotDigit_def)

lemma rot13_dollar: "rot13 r = 36 \<longleftrightarrow> r = 36"
  by (auto simp: rot13_def rotLower_def rotUpper_def rotDigit_def)

lemma of_char_int_range: "0 \<le> (of_char c :: int) \<and> (of_char c :: int) < 256"
proof -
  have "(of_char c :: int) = int (of_char c)" by (simp add: of_nat_of_char)
  moreover have "(of_char c :: nat) < 256" by simp
  ultimately show ?thesis by linarith
qed

lemma rot13_mod: "rot13 (of_char c) mod 256 = rot13 (of_char c)"
proof -
  have "0 \<le> rot13 (of_char c) \<and> rot13 (of_char c) < 256"
    using rot13_byte [of "of_char c"] of_char_int_range [of c] by blast
  then show ?thesis by (simp only: mod_pos_pos_trivial)
qed

lemma of_char_rot13c: "(of_char (char_of (rot13 (of_char c))) :: int) = rot13 (of_char c)"
  by (simp only: of_char_of rot13_mod)

lemma rot13c_invol: "char_of (rot13 (of_char (char_of (rot13 (of_char c))))) = c"
  by (simp only: of_char_rot13c rot13_invol char_of_char)

lemma strings_Map_rot13_invol: "strings_Map rot13 (strings_Map rot13 s) = s"
  by (induction s) (simp_all only: strings_Map_def list.map rot13c_invol)

lemma rot13c_dollar: "char_of (rot13 (of_char c)) = CHR ''$'' \<longleftrightarrow> c = CHR ''$''"
proof -
  have d: "(of_char CHR ''$'' :: int) = 36" by simp
  have "char_of (rot13 (of_char c)) = CHR ''$''
          \<longleftrightarrow> (of_char (char_of (rot13 (of_char c))) :: int) = of_char CHR ''$''"
    by (simp only: of_char_eq_iff)
  also have "\<dots> \<longleftrightarrow> rot13 (of_char c) = 36" by (simp only: of_char_rot13c d)
  also have "\<dots> \<longleftrightarrow> (of_char c :: int) = of_char CHR ''$''" by (simp only: rot13_dollar d)
  also have "\<dots> \<longleftrightarrow> c = CHR ''$''" by (simp only: of_char_eq_iff)
  finally show ?thesis .
qed

lemma strings_Map_rot13_no_dollar:
  "CHR ''$'' \<notin> set s \<Longrightarrow> CHR ''$'' \<notin> set (strings_Map rot13 s)"
proof
  assume a: "CHR ''$'' \<notin> set s" and b: "CHR ''$'' \<in> set (strings_Map rot13 s)"
  from b obtain c where c: "c \<in> set s" "char_of (rot13 (of_char c)) = CHR ''$''"
    unfolding strings_Map_def set_map by (elim imageE) (rule that, assumption, rule sym)
  from c(2) have "c = CHR ''$''" by (simp only: rot13c_dollar)
  with c(1) a show False by simp
qed

lemma strings_Split_no_sep: "sep \<notin> set s \<Longrightarrow> strings_Split s sep = [s]"
  by (induction s) auto

lemma alter_form:
  assumes "CHR ''$'' \<notin> set rest"
  shows "alter (''$2a$04$'' @ rest) = Inr (''$1$2a$12$'' @ strings_Map rot13 rest)"
  using assms by (simp add: alter_def hashVersion_def strings_Split_no_sep)

lemma unalter_form:
  assumes "CHR ''$'' \<notin> set s"
  shows "unalter (''$1$2a$12$'' @ s) = Inr (''$2a$04$'' @ strings_Map rot13 s)"
  using assms by (simp add: unalter_def strings_Split_no_sep)

lemma unalter_altered:
  assumes "CHR ''$'' \<notin> set rest"
  shows "unalter (''$1$2a$12$'' @ strings_Map rot13 rest) = Inr (''$2a$04$'' @ rest)"
  using unalter_form [OF strings_Map_rot13_no_dollar [OF assms]]
  by (simp only: strings_Map_rot13_invol)

text \<open>
  Claim C9. For a bcrypt hash \<open>$2a$04$\<close> followed by a salt and digest of ASCII
  characters other than \<open>$\<close> (bcrypt's alphabet is \<open>./A-Za-z0-9\<close>), \<open>alter\<close>
  returns the version tag \<open>1\<close>, the algorithm, the decoy cost \<open>12\<close> and the rotated salt
  and digest; \<open>unalter\<close> maps that string back to the hash; and the rotation applied
  twice to any rune is the rune.
\<close>

theorem alter_unalter_roundtrip:
  assumes "\<forall>c\<in>set rest. is_ascii c \<and> c \<noteq> CHR ''$''"
  shows "alter (''$2a$04$'' @ rest) = Inr (''$1$2a$12$'' @ strings_Map rot13 rest)
       \<and> unalter (''$1$2a$12$'' @ strings_Map rot13 rest) = Inr (''$2a$04$'' @ rest)
       \<and> (\<forall>r. rot13 (rot13 r) = r)"
proof -
  from assms have nd: "CHR ''$'' \<notin> set rest" by auto
  have a: "alter (''$2a$04$'' @ rest) = Inr (''$1$2a$12$'' @ strings_Map rot13 rest)"
    by (rule alter_form [OF nd])
  have u: "unalter (''$1$2a$12$'' @ strings_Map rot13 rest) = Inr (''$2a$04$'' @ rest)"
    by (rule unalter_altered [OF nd])
  show ?thesis using a u rot13_invol by blast
qed

text \<open>The hash printed in the comment at the head of pass.go, altered and restored.\<close>

theorem alter_unalter_roundtrip_witness:
  "alter ''$2a$04$g2tinxYv91PKj./q9ZyVdew2mKToygQrYb6gMReolejVgMaGcD2Ny''
     = Inr ''$1$2a$12$t7gvakLi46CXw./d4MlIqrj7zXGbltDeLo1tZErbyrwItZnTpQ7Al''
   \<and> unalter ''$1$2a$12$t7gvakLi46CXw./d4MlIqrj7zXGbltDeLo1tZErbyrwItZnTpQ7Al''
     = Inr ''$2a$04$g2tinxYv91PKj./q9ZyVdew2mKToygQrYb6gMReolejVgMaGcD2Ny''"
proof -
  have h: "\<forall>c\<in>set ''g2tinxYv91PKj./q9ZyVdew2mKToygQrYb6gMReolejVgMaGcD2Ny''.
             is_ascii c \<and> c \<noteq> CHR ''$''"
    by (simp add: is_ascii_def)
  have m: "strings_Map rot13 ''g2tinxYv91PKj./q9ZyVdew2mKToygQrYb6gMReolejVgMaGcD2Ny''
            = ''t7gvakLi46CXw./d4MlIqrj7zXGbltDeLo1tZErbyrwItZnTpQ7Al''"
    by code_simp
  show ?thesis
    using alter_unalter_roundtrip [OF h] unfolding m by simp
qed

subsection \<open>Generation followed by verification\<close>

lemma decrypt_encrypt:
  assumes "crypto_contract x k nonce"
  shows "\<exists>stored. encrypt x m k (Inr nonce) = Inr stored \<and> decrypt x stored k = Inr m"
  using assms by (simp add: crypto_contract_def encrypt_def decrypt_def)

lemma generate_stored:
  assumes c: "crypto_contract x (key a) nonce"
    and bc: "bcrypt_GenerateFromPassword x salt (p @ ''.'' @ pepper a) hashCost
               = Inr (''$2a$04$'' @ rest)"
    and nd: "CHR ''$'' \<notin> set rest"
  shows "\<exists>stored. generate x a p salt (Inr nonce) d = (Inr stored, slowDown d)
           \<and> decrypt x stored (key a) = Inr (''$1$2a$12$'' @ strings_Map rot13 rest)"
proof -
  obtain stored where
    s: "encrypt x (''$1$2a$12$'' @ strings_Map rot13 rest) (key a) (Inr nonce) = Inr stored"
       "decrypt x stored (key a) = Inr (''$1$2a$12$'' @ strings_Map rot13 rest)"
    using decrypt_encrypt [OF c] by blast
  have "generate x a p salt (Inr nonce) d = (Inr stored, slowDown d)"
    using bc alter_form [OF nd] s(1) by (simp add: generate_def)
  with s(2) show ?thesis by blast
qed

text \<open>
  Verifying any candidate against a stored value that decrypts to the altered hash is
  the bcrypt comparison of the peppered candidate with the original hash.
\<close>

lemma compare_stored:
  assumes d: "decrypt x stored (key a) = Inr (''$1$2a$12$'' @ strings_Map rot13 rest)"
    and nd: "CHR ''$'' \<notin> set rest"
  shows "compare x a stored q d' =
          (case bcrypt_CompareHashAndPassword x (''$2a$04$'' @ rest) (q @ ''.'' @ pepper a) of
             Some err \<Rightarrow> ((False, Some err), [])
           | None \<Rightarrow> ((True, None), slowDown d'))"
  using d unalter_altered [OF nd] by (simp add: compare_def)

text \<open>
  Claim C1. Let the libraries meet \<open>crypto_contract\<close>, let bcrypt hash the peppered
  password \<open>p.pepper\<close> to a string \<open>$2a$04$\<close> followed by a salt and digest over ASCII
  without \<open>$\<close>, and let bcrypt's own comparison accept the peppered \<open>p\<close> for that hash
  and reject the peppered \<open>p[i := c]\<close> for every position \<open>i\<close> of \<open>p\<close> and every other
  character \<open>c\<close> (bcrypt's correctness and collision resistance are the library's, not
  the repository's). Then \<open>generate\<close> returns a stored value, \<open>compare\<close> of that value
  with \<open>p\<close> returns \<open>(true, nil)\<close>, and \<open>compare\<close> with any \<open>p\<close> altered in a single
  character returns \<open>false\<close> with an error.
\<close>

theorem password_roundtrip:
  assumes c: "crypto_contract x (key a) nonce"
    and bc: "bcrypt_GenerateFromPassword x salt (p @ ''.'' @ pepper a) hashCost
               = Inr (''$2a$04$'' @ rest)"
    and rest: "\<forall>c\<in>set rest. is_ascii c \<and> c \<noteq> CHR ''$''"
    and accept: "bcrypt_CompareHashAndPassword x (''$2a$04$'' @ rest) (p @ ''.'' @ pepper a) = None"
    and reject: "\<forall>i c. i < length p \<and> c \<noteq> p ! i \<longrightarrow>
        bcrypt_CompareHashAndPassword x (''$2a$04$'' @ rest) (p[i := c] @ ''.'' @ pepper a) \<noteq> None"
  shows "\<exists>stored. fst (generate x a p salt (Inr nonce) d) = Inr stored
          \<and> fst (compare x a stored p d') = (True, None)
          \<and> (\<forall>i c. i < length p \<and> c \<noteq> p ! i \<longrightarrow>
                fst (fst (compare x a stored (p[i := c]) d')) = False
              \<and> snd (fst (compare x a stored (p[i := c]) d')) \<noteq> None)"
proof -
  from rest have nd: "CHR ''$'' \<notin> set rest" by auto
  obtain stored where g: "generate x a p salt (Inr nonce) d = (Inr stored, slowDown d)"
      and dec: "decrypt x stored (key a) = Inr (''$1$2a$12$'' @ strings_Map rot13 rest)"
    using generate_stored [OF c bc nd] by blast
  have ok: "fst (compare x a stored p d') = (True, None)"
    using accept by (simp add: compare_stored [OF dec nd])
  have bad: "fst (fst (compare x a stored (p[i := c]) d')) = False
              \<and> snd (fst (compare x a stored (p[i := c]) d')) \<noteq> None"
    if "i < length p \<and> c \<noteq> p ! i" for i c
  proof -
    from reject that obtain err where
      "bcrypt_CompareHashAndPassword x (''$2a$04$'' @ rest) (p[i := c] @ ''.'' @ pepper a) = Some err"
      by blast
    then show ?thesis by (simp add: compare_stored [OF dec nd])
  qed
  from g have "fst (generate x a p salt (Inr nonce) d) = Inr stored" by simp
  with ok bad show ?thesis by blast
qed

lemma altered_differs: "i < length p \<Longrightarrow> c \<noteq> p ! i \<Longrightarrow> p[i := c] @ s \<noteq> p @ s"
  using list_update_same_conv [of i p c] by auto

lemma plain_contract: "crypto_contract plain_ext k ''123456789012''"
  by (simp add: crypto_contract_def plain_ext_def gcm_NonceSize_def)

theorem password_roundtrip_witness:
  "\<exists>stored. fst (generate plain_ext demo_auth ''Str0ng!Pass'' ''salt'' (Inr ''123456789012'') 7) = Inr stored
      \<and> fst (compare plain_ext demo_auth stored ''Str0ng!Pass'' 9) = (True, None)
      \<and> fst (fst (compare plain_ext demo_auth stored (''Str0ng!Pass''[10 := CHR ''t'']) 9)) = False
      \<and> snd (fst (compare plain_ext demo_auth stored (''Str0ng!Pass''[10 := CHR ''t'']) 9)) \<noteq> None"
proof -
  have bc: "bcrypt_GenerateFromPassword plain_ext ''salt'' (''Str0ng!Pass'' @ ''.'' @ pepper demo_auth) hashCost
              = Inr (''$2a$04$'' @ ''Str0ng!Pass.pepper'')"
    by (simp add: plain_ext_def demo_auth_def)
  have rest: "\<forall>c\<in>set ''Str0ng!Pass.pepper''. is_ascii c \<and> c \<noteq> CHR ''$''"
    by (simp add: is_ascii_def)
  have accept: "bcrypt_CompareHashAndPassword plain_ext (''$2a$04$'' @ ''Str0ng!Pass.pepper'')
                  (''Str0ng!Pass'' @ ''.'' @ pepper demo_auth) = None"
    by (simp add: plain_ext_def demo_auth_def)
  have reject: "\<forall>i c. i < length ''Str0ng!Pass'' \<and> c \<noteq> ''Str0ng!Pass'' ! i \<longrightarrow>
        bcrypt_CompareHashAndPassword plain_ext (''$2a$04$'' @ ''Str0ng!Pass.pepper'')
          (''Str0ng!Pass''[i := c] @ ''.'' @ pepper demo_auth) \<noteq> None"
  proof (intro allI impI)
    fix i c assume h: "i < length ''Str0ng!Pass'' \<and> c \<noteq> ''Str0ng!Pass'' ! i"
    then have "''Str0ng!Pass''[i := c] @ ''.pepper'' \<noteq> ''Str0ng!Pass'' @ ''.pepper''"
      by (intro altered_differs) blast+
    then show "bcrypt_CompareHashAndPassword plain_ext (''$2a$04$'' @ ''Str0ng!Pass.pepper'')
          (''Str0ng!Pass''[i := c] @ ''.'' @ pepper demo_auth) \<noteq> None"
      by (simp add: plain_ext_def demo_auth_def)
  qed
  from password_roundtrip [OF plain_contract [of "key demo_auth"] bc rest accept reject, of 7 9]
  obtain stored where s:
    "fst (generate plain_ext demo_auth ''Str0ng!Pass'' ''salt'' (Inr ''123456789012'') 7) = Inr stored"
    "fst (compare plain_ext demo_auth stored ''Str0ng!Pass'' 9) = (True, None)"
    "\<forall>i c. i < length ''Str0ng!Pass'' \<and> c \<noteq> ''Str0ng!Pass'' ! i \<longrightarrow>
         fst (fst (compare plain_ext demo_auth stored (''Str0ng!Pass''[i := c]) 9)) = False
       \<and> snd (fst (compare plain_ext demo_auth stored (''Str0ng!Pass''[i := c]) 9)) \<noteq> None"
    by blast
  have "10 < length ''Str0ng!Pass'' \<and> CHR ''t'' \<noteq> ''Str0ng!Pass'' ! 10" by simp
  with s(3) have "fst (fst (compare plain_ext demo_auth stored (''Str0ng!Pass''[10 := CHR ''t'']) 9)) = False
       \<and> snd (fst (compare plain_ext demo_auth stored (''Str0ng!Pass''[10 := CHR ''t'']) 9)) \<noteq> None"
    by blast
  with s(1,2) show ?thesis by blast
qed

subsection \<open>Where the sleep happens\<close>

lemma slowDown_range:
  "\<exists>n. slowDown draw = [Sleep (n * millisecond)] \<and> 200 \<le> n \<and> n < 250"
proof -
  have "draw mod 50 < 50" by simp
  then have "200 \<le> 200 + int (draw mod 50) \<and> 200 + int (draw mod 50) < 250" by linarith
  then show ?thesis unfolding slowDown_def mrand_Intn_def Let_def by blast
qed

text \<open>
  Claim C8, as the code has it. \<open>generate\<close> and \<open>compare\<close> call \<open>slowDown\<close> on their
  successful path: a call that succeeds sleeps once, for a whole number of milliseconds
  from 200 to 249. A call in which a library call fails (bcrypt hashing or encryption in
  \<open>generate\<close>; base64 decoding, the cipher or its opening of the stored value, or a
  decrypted value that \<open>unalter\<close> cannot index, in \<open>compare\<close>) returns the error at once
  and sleeps not at all.
\<close>

theorem slowDown_on_success:
  "(case generate x a pass salt rnd draw of
      (Inl err, evs) \<Rightarrow> evs = []
    | (Inr stored, evs) \<Rightarrow> evs = slowDown draw)
   \<and> (if fst (compare x a hash pass draw) = (True, None)
       then snd (compare x a hash pass draw) = slowDown draw else True)
   \<and> (case decrypt x hash (key a) of
        Inl err \<Rightarrow> compare x a hash pass draw = ((False, Some err), [])
      | Inr decoded \<Rightarrow>
          (case unalter decoded of
             Inl err \<Rightarrow> compare x a hash pass draw = ((False, Some err), [])
           | Inr h \<Rightarrow> True))
   \<and> (\<exists>n. slowDown draw = [Sleep (n * millisecond)] \<and> 200 \<le> n \<and> n < 250)"
proof -
  have g: "(case generate x a pass salt rnd draw of
      (Inl err, evs) \<Rightarrow> evs = []
    | (Inr stored, evs) \<Rightarrow> evs = slowDown draw)"
    by (simp add: generate_def split: sum.split)
  have c: "(if fst (compare x a hash pass draw) = (True, None)
       then snd (compare x a hash pass draw) = slowDown draw else True)"
    by (simp add: compare_def split: sum.split option.split)
  have d: "(case decrypt x hash (key a) of
        Inl err \<Rightarrow> compare x a hash pass draw = ((False, Some err), [])
      | Inr decoded \<Rightarrow>
          (case unalter decoded of
             Inl err \<Rightarrow> compare x a hash pass draw = ((False, Some err), [])
           | Inr h \<Rightarrow> True))"
    by (simp add: compare_def split: sum.split)
  from g c d slowDown_range show ?thesis by blast
qed

text \<open>
  The claim as stated fails: the verification of a stored value that the cipher cannot
  open returns its error with no sleep, and so does a generation whose key the cipher
  refuses, where a verification that succeeds sleeps 207 ms.
\<close>

theorem failure_returns_without_sleep:
  "compare (plain_ext \<lparr> gcm_Open := (\<lambda>k nonce ciphertext. Inl (LibError ''cipher: message authentication failed'')) \<rparr>)
        demo_auth ''123456789012$1$2a$12$Fge5at!Cnff.crccre'' ''Str0ng!Pass'' 7
     = ((False, Some (LibError ''cipher: message authentication failed'')), [])
   \<and> compare plain_ext demo_auth ''123456789012$1$2a$12$Fge5at!Cnff.crccre'' ''Str0ng!Pass'' 7
     = ((True, None), [Sleep (207 * millisecond)])
   \<and> generate (plain_ext \<lparr> aes_NewCipher := (\<lambda>k. Some (LibError ''crypto/aes: invalid key size'')) \<rparr>)
        demo_auth ''Str0ng!Pass'' ''salt'' (Inr ''123456789012'') 7
     = (Inl (LibError ''crypto/aes: invalid key size''), [])"
  by code_simp

section \<open>tracker/tracker.go\<close>

text \<open>
  The tracking cookie is the base64 text of the JSON of a \<open>payload\<close>: the \<open>Info\<close> and
  the xxhash sum of the JSON of the \<open>Info\<close>. JSON (\<open>github.com/goccy/go-json\<close>), xxhash
  (\<open>github.com/cespare/xxhash/v2\<close>) and \<open>encoding/base64\<close> are libraries outside the
  repository; their functions are the fields of \<open>tracker_ext\<close>. \<open>json_Unmarshal_payload\<close>
  returns the payload that \<open>json.Unmarshal\<close> leaves in the freshly allocated
  \<open>&payload{Info: &Info{}}\<close>. The two \<open>rand.Int63()\<close> draws of \<open>createAnonTracker\<close> and
  the one of \<open>CreateAuthTracker\<close> are arguments. A request is represented by what the
  function reads of it: the value of its \<open>id\<close> cookie, if it has one.
\<close>

record Info =
  ID :: int
  Name :: string
  Auth :: bool
  Scope :: "string list"

record payload =
  Info :: Info
  Sig :: "64 word"

record tracker_ext =
  json_Marshal_Info :: "Info \<Rightarrow> error + string"
  json_Marshal_payload :: "payload \<Rightarrow> error + string"
  json_Unmarshal_payload :: "string \<Rightarrow> error + payload"
  xxhash_Sum64 :: "string \<Rightarrow> 64 word"
  b64_EncodeToString :: "string \<Rightarrow> string"
  b64_DecodeString :: "string \<Rightarrow> error + string"

definition validateTrackingCookie :: "tracker_ext \<Rightarrow> payload \<Rightarrow> bool" where
  "validateTrackingCookie x p =
     (case json_Marshal_Info x (Info p) of
        Inl err \<Rightarrow> False
      | Inr bytes \<Rightarrow> if Sig p \<noteq> xxhash_Sum64 x bytes then False else True)"

definition getTrackingCookie :: "tracker_ext \<Rightarrow> string option \<Rightarrow> Info option \<times> error option" where
  "getTrackingCookie x cookie =
     (case cookie of
        None \<Rightarrow> (None, None)
      | Some v \<Rightarrow>
     (case b64_DecodeString x v of
        Inl err \<Rightarrow> (None, Some err)
      | Inr val \<Rightarrow>
     (case json_Unmarshal_payload x val of
        Inl err \<Rightarrow> (None, Some err)
      | Inr p \<Rightarrow>
          if \<not> validateTrackingCookie x p then (None, None)
          else (Some (Info p), None))))"

definition writeTrackingCookie :: "tracker_ext \<Rightarrow> string \<Rightarrow> error option \<times> event list" where
  "writeTrackingCookie x bytes =
     (let val = b64_EncodeToString x bytes in (None, [SetCookie ''id'' val]))"

definition createNewTracker :: "tracker_ext \<Rightarrow> Info \<Rightarrow> error option \<times> event list" where
  "createNewTracker x info =
     (case json_Marshal_Info x info of
        Inl err \<Rightarrow> (Some err, [])
      | Inr bytes \<Rightarrow>
          let p = \<lparr> Info = info, Sig = xxhash_Sum64 x bytes \<rparr> in
          (case json_Marshal_payload x p of
             Inl err \<Rightarrow> (Some err, [])
           | Inr bytes \<Rightarrow> writeTrackingCookie x bytes))"

text \<open>\<open>strconv.FormatInt(i, 16)\<close>: lower-case digits, a sign for a negative number.\<close>

definition hex_digit :: "int \<Rightarrow> char" where
  "hex_digit d = ''0123456789abcdef'' ! nat (d mod 16)"

function hex_digits :: "int \<Rightarrow> string" where
  "hex_digits n =
     (if n < 16 then [hex_digit n] else hex_digits (n div 16) @ [hex_digit (n mod 16)])"
  by pat_completeness auto
termination
  by (relation "measure nat") auto

definition strconv_FormatInt16 :: "int \<Rightarrow> string" where
  "strconv_FormatInt16 i = (if i < 0 then ''-'' @ hex_digits (- i) else hex_digits i)"

text \<open>
  \<open>createAnonTracker\<close> slices the hexadecimal text of its second draw from index 8; a
  text shorter than 8 makes the slice expression panic (\<open>Inl Panic\<close>).
\<close>

definition createAnonTracker ::
  "tracker_ext \<Rightarrow> int \<Rightarrow> int \<Rightarrow> error + (error option \<times> event list)"
where
  "createAnonTracker x draw1 draw2 =
     (let text = strconv_FormatInt16 draw2 in
      if length text < 8 then Inl Panic
      else Inr (createNewTracker x \<lparr> ID = draw1, Name = drop 8 text, Auth = False, Scope = [] \<rparr>))"

definition CreateAuthTracker ::
  "tracker_ext \<Rightarrow> string \<Rightarrow> string list \<Rightarrow> int \<Rightarrow> error option \<times> event list"
where
  "CreateAuthTracker x name permissions draw =
     createNewTracker x \<lparr> ID = draw, Name = name, Auth = True, Scope = permissions \<rparr>"

text \<open>
  \<open>GetTrackingInfo\<close> returns \<open>*Info\<close> (\<open>None\<close> is \<open>nil\<close>); a panic of
  \<open>createAnonTracker\<close> is \<open>Inl Panic\<close>. After \<open>createAnonTracker\<close> both branches of the
  source return \<open>nil\<close>.
\<close>

definition GetTrackingInfo ::
  "tracker_ext \<Rightarrow> string option \<Rightarrow> int \<Rightarrow> int \<Rightarrow> (error + Info option) \<times> event list"
where
  "GetTrackingInfo x cookie draw1 draw2 =
     (case getTrackingCookie x cookie of
        (Some info, None) \<Rightarrow> (Inr (Some info), [])
      | _ \<Rightarrow>
     (case createAnonTracker x draw1 draw2 of
        Inl err \<Rightarrow> (Inl err, [])
      | Inr (Some err, evs) \<Rightarrow> (Inr None, evs)
      | Inr (None, evs) \<Rightarrow> (Inr None, evs)))"

text \<open>
  A stand-in codec, used to run the model on concrete inputs: the serialisation of an
  \<open>Info\<close> is a JSON-like text of its name and flag, the payload text is recognised only
  for the one payload of the example, base64 is the identity and the hash is the length.
\<close>

definition demo_info :: Info where
  "demo_info = \<lparr> ID = 7, Name = ''alice01'', Auth = True, Scope = [''user''] \<rparr>"

definition demo_codec :: tracker_ext where
  "demo_codec = \<lparr>
     json_Marshal_Info = (\<lambda>i. Inr (''{name:'' @ Name i @ (if Auth i then '',auth}'' else ''}''))),
     json_Marshal_payload = (\<lambda>p. Inr (''{info:'' @ Name (Info p) @ '',sig}'')),
     json_Unmarshal_payload =
       (\<lambda>bytes. if bytes = ''{info:alice01,sig}'' then Inr \<lparr> Info = demo_info, Sig = 19 \<rparr>
                 else if bytes = ''{info:mallory,sig}''
                   then Inr \<lparr> Info = demo_info \<lparr> Name := ''mallory'' \<rparr>, Sig = 7 \<rparr>
                 else Inl (LibError ''json: cannot unmarshal'')),
     xxhash_Sum64 = (\<lambda>bytes. of_nat (length bytes)),
     b64_EncodeToString = (\<lambda>bytes. bytes),
     b64_DecodeString = (\<lambda>text. Inr text) \<rparr>"

subsection \<open>Encoding followed by decoding\<close>

lemma createNewTracker_cookie:
  assumes mi: "json_Marshal_Info x info = Inr ibytes"
    and mp: "json_Marshal_payload x \<lparr> Info = info, Sig = xxhash_Sum64 x ibytes \<rparr> = Inr pbytes"
  shows "createNewTracker x info = (None, [SetCookie ''id'' (b64_EncodeToString x pbytes)])"
  using mi mp by (simp add: createNewTracker_def writeTrackingCookie_def)

lemma getTrackingCookie_Some_iff:
  "fst (getTrackingCookie x (Some v)) = Some info' \<longleftrightarrow>
     (\<exists>bytes p ib. b64_DecodeString x v = Inr bytes \<and> json_Unmarshal_payload x bytes = Inr p
        \<and> Info p = info' \<and> json_Marshal_Info x info' = Inr ib \<and> Sig p = xxhash_Sum64 x ib)"
  by (auto simp: getTrackingCookie_def validateTrackingCookie_def split: sum.splits)

text \<open>
  Claim C6, as the code has it. Where the libraries serialise the \<open>Info\<close> and the
  payload, and decode what they encoded, \<open>createNewTracker\<close> writes a cookie from which
  \<open>getTrackingCookie\<close> returns the same \<open>Info\<close>. For any cookie value whatever,
  \<open>getTrackingCookie\<close> returns an identity exactly when the value decodes to a payload
  whose signature equals the hash of the serialisation of the identity it carries; a
  tampered cookie for which that equality fails yields no identity.
\<close>

theorem tracking_cookie_roundtrip:
  assumes mi: "json_Marshal_Info x info = Inr ibytes"
    and mp: "json_Marshal_payload x \<lparr> Info = info, Sig = xxhash_Sum64 x ibytes \<rparr> = Inr pbytes"
    and um: "json_Unmarshal_payload x pbytes = Inr \<lparr> Info = info, Sig = xxhash_Sum64 x ibytes \<rparr>"
    and b64: "b64_DecodeString x (b64_EncodeToString x pbytes) = Inr pbytes"
  shows "createNewTracker x info = (None, [SetCookie ''id'' (b64_EncodeToString x pbytes)])
       \<and> getTrackingCookie x (Some (b64_EncodeToString x pbytes)) = (Some info, None)
       \<and> (\<forall>v info'. fst (getTrackingCookie x (Some v)) = Some info' \<longleftrightarrow>
            (\<exists>bytes p ib. b64_DecodeString x v = Inr bytes \<and> json_Unmarshal_payload x bytes = Inr p
               \<and> Info p = info' \<and> json_Marshal_Info x info' = Inr ib \<and> Sig p = xxhash_Sum64 x ib))"
proof -
  have w: "createNewTracker x info = (None, [SetCookie ''id'' (b64_EncodeToString x pbytes)])"
    by (rule createNewTracker_cookie [OF mi mp])
  have r: "getTrackingCookie x (Some (b64_EncodeToString x pbytes)) = (Some info, None)"
    using mi um b64 by (simp add: getTrackingCookie_def validateTrackingCookie_def)
  from w r getTrackingCookie_Some_iff show ?thesis by blast
qed

theorem tracking_cookie_roundtrip_witness:
  "createNewTracker demo_codec demo_info = (None, [SetCookie ''id'' ''{info:alice01,sig}''])
   \<and> getTrackingCookie demo_codec (Some ''{info:alice01,sig}'') = (Some demo_info, None)
   \<and> fst (getTrackingCookie demo_codec (Some ''{info:mallory,sig}'')) = None"
proof -
  have mi: "json_Marshal_Info demo_codec demo_info = Inr ''{name:alice01,auth}''"
    by (simp add: demo_codec_def demo_info_def)
  have s: "xxhash_Sum64 demo_codec ''{name:alice01,auth}'' = 19"
    by (simp add: demo_codec_def)
  have mp: "json_Marshal_payload demo_codec
              \<lparr> Info = demo_info, Sig = xxhash_Sum64 demo_codec ''{name:alice01,auth}'' \<rparr>
            = Inr ''{info:alice01,sig}''"
    by (simp add: demo_codec_def demo_info_def)
  have um: "json_Unmarshal_payload demo_codec ''{info:alice01,sig}''
            = Inr \<lparr> Info = demo_info, Sig = xxhash_Sum64 demo_codec ''{name:alice01,auth}'' \<rparr>"
    by (simp add: demo_codec_def)
  have b64: "b64_DecodeString demo_codec (b64_EncodeToString demo_codec ''{info:alice01,sig}'')
              = Inr ''{info:alice01,sig}''"
    by (simp add: demo_codec_def)
  have e: "b64_EncodeToString demo_codec ''{info:alice01,sig}'' = ''{info:alice01,sig}''"
    by (simp add: demo_codec_def)
  note t = tracking_cookie_roundtrip [OF mi mp um b64, unfolded e]
  have m: "fst (getTrackingCookie demo_codec (Some ''{info:mallory,sig}'')) = None"
    by (simp add: getTrackingCookie_def validateTrackingCookie_def demo_codec_def demo_info_def)
  from t m show ?thesis by blast
qed

subsection \<open>A 64-bit sum cannot tell all identities apart\<close>

lemma infinite_Info: "infinite (UNIV :: Info set)"
proof -
  have "inj (\<lambda>n::nat. \<lparr> ID = int n, Name = [], Auth = False, Scope = [] \<rparr>)"
    by (simp add: inj_def)
  then have "infinite (range (\<lambda>n::nat. \<lparr> ID = int n, Name = [], Auth = False, Scope = [] \<rparr>))"
    using finite_imageD infinite_UNIV_nat by blast
  then show ?thesis using finite_subset [OF subset_UNIV] by blast
qed

lemma sum_collision:
  fixes s :: "Info \<Rightarrow> 64 word"
  shows "\<exists>i1 i2. i1 \<noteq> i2 \<and> s i1 = s i2"
proof (rule ccontr)
  assume "\<not> (\<exists>i1 i2. i1 \<noteq> i2 \<and> s i1 = s i2)"
  then have "inj s" by (auto simp: inj_def)
  moreover have "finite (range s)" by (rule finite_subset [OF subset_UNIV]) simp
  ultimately have "finite (UNIV :: Info set)" by (rule finite_imageD [rotated])
  with infinite_Info show False by blast
qed

text \<open>
  The claim as stated fails: whatever the serialisation \<open>m\<close> and the 64-bit hash \<open>h\<close>
  are, there are two different identities with the same sum, so a cookie that carries
  the second identity together with the signature of the first (the payload tampered,
  the signature kept) passes the check and is returned as the second identity.
\<close>

theorem colliding_payload_accepted:
  "\<forall>(m :: Info \<Rightarrow> string) (h :: string \<Rightarrow> 64 word) v. \<exists>i1 i2. i1 \<noteq> i2 \<and>
     getTrackingCookie
       \<lparr> json_Marshal_Info = (\<lambda>i. Inr (m i)),
         json_Marshal_payload = (\<lambda>p. Inr v),
         json_Unmarshal_payload = (\<lambda>bytes. Inr \<lparr> Info = i2, Sig = h (m i1) \<rparr>),
         xxhash_Sum64 = h,
         b64_EncodeToString = (\<lambda>bytes. bytes),
         b64_DecodeString = (\<lambda>text. Inr text) \<rparr>
       (Some v) = (Some i2, None)"
proof (intro allI)
  fix m :: "Info \<Rightarrow> string" and h :: "string \<Rightarrow> 64 word" and v :: string
  obtain i1 i2 where c: "i1 \<noteq> i2" "h (m i1) = h (m i2)"
    using sum_collision [of "\<lambda>i. h (m i)"] by blast
  then show "\<exists>i1 i2. i1 \<noteq> i2 \<and>
     getTrackingCookie
       \<lparr> json_Marshal_Info = (\<lambda>i. Inr (m i)),
         json_Marshal_payload = (\<lambda>p. Inr v),
         json_Unmarshal_payload = (\<lambda>bytes. Inr \<lparr> Info = i2, Sig = h (m i1) \<rparr>),
         xxhash_Sum64 = h,
         b64_EncodeToString = (\<lambda>bytes. bytes),
         b64_DecodeString = (\<lambda>text. Inr text) \<rparr>
       (Some v) = (Some i2, None)"
    by (intro exI [of _ i1] exI [of _ i2])
       (simp add: getTrackingCookie_def validateTrackingCookie_def)
qed

subsection \<open>GetTrackingInfo\<close>

lemma GetTrackingInfo_valid_cookie:
  "getTrackingCookie x cookie = (Some info, None) \<Longrightarrow>
     GetTrackingInfo x cookie d1 d2 = (Inr (Some info), [])"
  by (simp add: GetTrackingInfo_def)

lemma GetTrackingInfo_no_cookie:
  "fst (GetTrackingInfo x None d1 d2) = Inr None \<or> fst (GetTrackingInfo x None d1 d2) = Inl Panic"
  by (simp add: GetTrackingInfo_def getTrackingCookie_def createAnonTracker_def Let_def
           split: sum.split prod.split option.split)

text \<open>
  Claim C7 at concrete requests. A request without an \<open>id\<close> cookie, and a request whose
  cookie fails the integrity check, get a new anonymous cookie written, but the function
  returns \<open>nil\<close>, not the \<open>Info\<close> it has just synthesized; and when the hexadecimal text
  of the second draw has fewer than 8 digits, the slice panics before any cookie is
  written.
\<close>

theorem GetTrackingInfo_new_visitor_gets_nil:
  "GetTrackingInfo demo_codec None 5 4611686018427400249
     = (Inr None, [SetCookie ''id'' ''{info:00003039,sig}''])
   \<and> GetTrackingInfo demo_codec (Some ''{info:mallory,sig}'') 5 4611686018427400249
     = (Inr None, [SetCookie ''id'' ''{info:00003039,sig}''])
   \<and> GetTrackingInfo demo_codec None 5 1000 = (Inl Panic, [])"
  by code_simp

section \<open>limiter/limiter.go\<close>

text \<open>
  The token bucket (\<open>golang.org/x/time/rate\<close>) is outside the repository. A
  \<open>rate.Limiter\<close> is represented by the arguments it was built from, and the delay that
  \<open>limiter.Reserve().Delay()\<close> reports is an argument of \<open>limit\<close> (one for the visitor's
  bucket, one for the global bucket). The two counters of a visitor are the 64-bit
  integers of the source: \<open>delayCount\<close> is a \<open>uint64\<close>, \<open>currDelays\<close> an \<open>int64\<close> read
  through \<open>sint\<close>. The visitors of a \<open>Limiter\<close> and the shared bot registries are maps
  from the IP. The clock is an argument. A log event carries the format string of the
  message, without its formatted arguments.

  The model runs one request at a time. The requests of other goroutines that are asleep
  in \<open>visitorDelay\<close> at that moment are what the visitor's \<open>currDelays\<close> holds when the
  call starts.
\<close>

datatype visitorType = vt_undefined | user | goodBot | badBot

record rate_Limiter =
  every :: int
  burst :: int

definition rate_NewLimiter :: "int \<Rightarrow> int \<Rightarrow> rate_Limiter" where
  "rate_NewLimiter interval b = \<lparr> every = interval, burst = b \<rparr>"

record visitor =
  name :: string
  limiter :: rate_Limiter
  vtype :: visitorType
  firstSeen :: int
  lastSeen :: int
  delayCount :: "64 word"
  currDelays :: "64 word"

record botEntry =
  bot_name :: string
  bot_host :: string

record Rate =
  Interval :: int
  Burst :: int
  MaxDelayed :: "64 word"

record LimitSettings =
  LimiterName :: string
  GlobalRate :: Rate
  GoodBotRate :: Rate
  UserRate :: Rate

record Limiter =
  vars :: LimitSettings
  global :: "rate_Limiter option"
  visitors :: "string \<rightharpoonup> visitor"

record sharedResources =
  gbots :: "string \<rightharpoonup> botEntry"
  bbots :: "string \<rightharpoonup> botEntry"

definition nanosecond :: int where
  "nanosecond = 1"

definition NewLimiter :: "LimitSettings \<Rightarrow> error + Limiter" where
  "NewLimiter settings =
     (if Burst (UserRate settings) \<le> 0
      then Inl (LibError ''user rate must have a burst greater than zero'')
      else
        let settings =
              (if Burst (GlobalRate settings) > 0 \<and> Interval (GlobalRate settings) = 0
               then settings \<lparr> GlobalRate := (GlobalRate settings) \<lparr> Interval := nanosecond \<rparr> \<rparr>
               else settings);
            settings =
              (if Burst (GoodBotRate settings) > 0 \<and> Interval (GoodBotRate settings) = 0
               then settings \<lparr> GoodBotRate := (GoodBotRate settings) \<lparr> Interval := nanosecond \<rparr> \<rparr>
               else settings);
            settings =
              (if Burst (GoodBotRate settings) = 0 \<and> Interval (GoodBotRate settings) = 0
               then settings \<lparr> GoodBotRate := (GoodBotRate settings)
                      \<lparr> Burst := Burst (UserRate settings), Interval := Interval (UserRate settings) \<rparr> \<rparr>
               else settings)
        in Inr \<lparr> vars = settings,
                 global = (if Burst (GlobalRate settings) > 0
                           then Some (rate_NewLimiter (Interval (GlobalRate settings)) (Burst (GlobalRate settings)))
                           else None),
                 visitors = Map.empty \<rparr>)"

definition getVisitorEntry :: "Limiter \<Rightarrow> string \<Rightarrow> int \<Rightarrow> visitor option \<times> Limiter" where
  "getVisitorEntry r ip now =
     (case visitors r ip of
        None \<Rightarrow> (None, r)
      | Some v \<Rightarrow>
          let v = v \<lparr> lastSeen := now \<rparr>
          in (Some v, r \<lparr> visitors := (visitors r)(ip \<mapsto> v) \<rparr>))"

definition createVisitor ::
  "Limiter \<Rightarrow> string \<Rightarrow> string \<Rightarrow> visitorType \<Rightarrow> int \<Rightarrow> visitor \<times> Limiter"
where
  "createVisitor r ip nm typ now =
     (let (interval, b) =
            (case typ of
               user \<Rightarrow> (Interval (UserRate (vars r)), Burst (UserRate (vars r)))
             | goodBot \<Rightarrow> (Interval (GoodBotRate (vars r)), Burst (GoodBotRate (vars r)))
             | _ \<Rightarrow> (1 * hour, 1));
          v = \<lparr> name = nm, limiter = rate_NewLimiter interval b, vtype = typ,
                firstSeen = now, lastSeen = now, delayCount = 0, currDelays = 0 \<rparr>
      in (v, r \<lparr> visitors := (visitors r)(ip \<mapsto> v) \<rparr>))"

definition getExistingLimiter ::
  "Limiter \<Rightarrow> string \<Rightarrow> int \<Rightarrow> rate_Limiter option \<times> string \<times> Limiter"
where
  "getExistingLimiter r ip now =
     (case getVisitorEntry r ip now of
        (Some v, r) \<Rightarrow> (Some (limiter v), name v, r)
      | (None, r) \<Rightarrow> (None, [], r))"

definition logNewVisitor :: "event list" where
  "logNewVisitor = [LogInfo ''%s(%d):%s %s: new visitor'']"

definition isGoodBot :: "sharedResources \<Rightarrow> string \<Rightarrow> bool \<times> string" where
  "isGoodBot sh ip = (case gbots sh ip of Some entry \<Rightarrow> (True, bot_name entry) | None \<Rightarrow> (False, []))"

definition isBadBot :: "sharedResources \<Rightarrow> string \<Rightarrow> bool \<times> string" where
  "isBadBot sh ip = (case bbots sh ip of Some entry \<Rightarrow> (True, bot_name entry) | None \<Rightarrow> (False, []))"

definition upgradeIfGoodBot ::
  "Limiter \<Rightarrow> sharedResources \<Rightarrow> string \<Rightarrow> int \<Rightarrow> rate_Limiter option \<times> string \<times> Limiter \<times> event list"
where
  "upgradeIfGoodBot r sh ip now =
     (case isGoodBot sh ip of
        (True, nm) \<Rightarrow>
          let (v, r) = createVisitor r ip nm goodBot now
          in (Some (limiter v), nm, r, logNewVisitor)
      | (False, nm) \<Rightarrow> (None, [], r, []))"

definition downgradeIfBadBot ::
  "Limiter \<Rightarrow> sharedResources \<Rightarrow> string \<Rightarrow> int \<Rightarrow> rate_Limiter option \<times> string \<times> Limiter \<times> event list"
where
  "downgradeIfBadBot r sh ip now =
     (case isBadBot sh ip of
        (True, nm) \<Rightarrow>
          let (v, r) = createVisitor r ip nm badBot now
          in (Some (limiter v), nm, r, logNewVisitor)
      | (False, nm) \<Rightarrow> (None, [], r, []))"

text \<open>
  \<open>botLookupBackground\<close> starts the goroutine \<open>routine\<close> (section botcheck.go); the
  request does not wait for it, so here it is the event \<open>Go\<close>.
\<close>

definition getNewLimiter ::
  "Limiter \<Rightarrow> sharedResources \<Rightarrow> string \<Rightarrow> int \<Rightarrow> rate_Limiter \<times> string \<times> Limiter \<times> event list"
where
  "getNewLimiter r sh ip now =
     (case upgradeIfGoodBot r sh ip now of
        (Some gbotLimiter, nm, r, evs) \<Rightarrow> (gbotLimiter, nm, r, evs)
      | (None, _, r, evs) \<Rightarrow>
     (case downgradeIfBadBot r sh ip now of
        (Some bbotLimiter, nm, r, evs') \<Rightarrow> (bbotLimiter, nm, r, evs @ evs')
      | (None, _, r, evs') \<Rightarrow>
          let (v, r) = createVisitor r ip [] user now
          in (limiter v, [], r, evs @ evs' @ logNewVisitor @ [Go ''routine''])))"

definition getLimiter ::
  "Limiter \<Rightarrow> sharedResources \<Rightarrow> string \<Rightarrow> Info option \<Rightarrow> int \<Rightarrow> rate_Limiter \<times> Limiter \<times> event list"
where
  "getLimiter r sh ip info now =
     (let (lim, nm, r, evs) =
            (case getExistingLimiter r ip now of
               (Some lim, nm, r) \<Rightarrow> (lim, nm, r, [])
             | (None, _, r) \<Rightarrow> getNewLimiter r sh ip now);
          header =
            (if nm \<noteq> [] then nm
             else (case info of
                     Some i \<Rightarrow> if Auth i then Name i else ip @ ''|'' @ Name i
                   | None \<Rightarrow> ip))
      in (lim, r, evs @ [SetHeader ''Visitor-Name'' header]))"

definition globalDelay :: "int \<Rightarrow> event list" where
  "globalDelay delay = [LogInfo ''%s %s: globally limited for %s'', Sleep delay]"

text \<open>The \<open>switch visitor.vtype\<close> of \<open>visitorDelay\<close>.\<close>

definition maxDelayed_of :: "LimitSettings \<Rightarrow> visitorType \<Rightarrow> 64 word" where
  "maxDelayed_of settings typ =
     (case typ of
        user \<Rightarrow> MaxDelayed (UserRate settings)
      | goodBot \<Rightarrow> MaxDelayed (GoodBotRate settings)
      | _ \<Rightarrow> 1)"

text \<open>
  \<open>maxDelayed > 0\<close> compares a \<open>uint64\<close> (the order of words is the unsigned one);
  \<open>curr > int64(maxDelayed)\<close> converts the ceiling to \<open>int64\<close> (the same 64 bits read
  as two's complement) and compares signed.
\<close>

definition visitorDelay ::
  "Limiter \<Rightarrow> string \<Rightarrow> int \<Rightarrow> int \<Rightarrow> error option \<times> Limiter \<times> event list"
where
  "visitorDelay r ip delay now =
     (case getVisitorEntry r ip now of
        (None, r) \<Rightarrow> (None, r, [LogErr ''getVisitorEntry() returned nil for ip %s''])
      | (Some v, r) \<Rightarrow>
          let v = v \<lparr> delayCount := delayCount v + 1 \<rparr>;
              v = v \<lparr> currDelays := currDelays v + 1 \<rparr>;
              cnt = delayCount v;
              curr = currDelays v;
              maxDelayed = maxDelayed_of (vars r) (vtype v);
              reject = (maxDelayed > 0 \<and> sint curr > sint maxDelayed);
              doSleep = \<not> reject;
              err = (if reject then Some ErrTooManyRequests else None);
              logged =
                (if err \<noteq> None
                 then [LogWarn ''%s(%d) %s: exceeded max limit of %d; tot limits = %d'']
                 else [LogInfo ''%s(%d) %s: limited for %s; tot limits = %d; curr limits = %d'']);
              slept = (if doSleep then [Sleep delay] else []);
              v = (if sint curr > 0 then v \<lparr> currDelays := currDelays v - 1 \<rparr> else v)
          in (err, r \<lparr> visitors := (visitors r)(ip \<mapsto> v) \<rparr>, logged @ slept))"

definition limit ::
  "Limiter \<Rightarrow> sharedResources \<Rightarrow> string \<Rightarrow> Info option \<Rightarrow> int \<Rightarrow> int \<Rightarrow> int
     \<Rightarrow> error option \<times> Limiter \<times> event list"
where
  "limit r sh ip info now vdelay gdelay =
     (if ip = [] then (Some ErrEmptyIP, r, [])
      else
        let (lim, r, evs) = getLimiter r sh ip info now;
            evs = evs @ [Reserve ''visitor''];
            (err, r, evs) =
              (if vdelay > 0
               then (case visitorDelay r ip vdelay now of
                       (Some err, r, evs') \<Rightarrow> (Some err, r, evs @ evs' @ [CancelReservation])
                     | (None, r, evs') \<Rightarrow> (None, r, evs @ evs'))
               else (None, r, evs))
        in if err \<noteq> None then (err, r, evs)
           else if global r \<noteq> None
           then (None, r, evs @ [Reserve ''global''] @ (if gdelay > 0 then globalDelay gdelay else []))
           else (None, r, evs))"

definition WriteErrorResponse :: "error \<Rightarrow> event list" where
  "WriteErrorResponse err = (if err = ErrTooManyRequests then [WriteHeader 429] else [WriteHeader 500])"

text \<open>
  The settings the auth package passes to \<open>NewLimiter\<close> in \<open>NewAuth\<close>, and a limiter
  with one visitor of type \<open>user\<close> to run the model on.
\<close>

definition auth_settings :: "int \<Rightarrow> int \<Rightarrow> LimitSettings" where
  "auth_settings userRate globalRate = \<lparr>
     LimiterName = ''auth'',
     GlobalRate = \<lparr> Interval = globalRate, Burst = 4, MaxDelayed = 0 \<rparr>,
     GoodBotRate = \<lparr> Interval = 0, Burst = 0, MaxDelayed = 0 \<rparr>,
     UserRate = \<lparr> Interval = userRate, Burst = 4, MaxDelayed = 2 \<rparr> \<rparr>"

definition no_bots :: sharedResources where
  "no_bots = \<lparr> gbots = Map.empty, bbots = Map.empty \<rparr>"

definition demo_limiter :: "64 word \<Rightarrow> 64 word \<Rightarrow> Limiter" where
  "demo_limiter ceiling inflight = \<lparr>
     vars = \<lparr> LimiterName = ''api'',
              GlobalRate = \<lparr> Interval = 0, Burst = 0, MaxDelayed = 0 \<rparr>,
              GoodBotRate = \<lparr> Interval = 500 * millisecond, Burst = 3, MaxDelayed = 0 \<rparr>,
              UserRate = \<lparr> Interval = 500 * millisecond, Burst = 3, MaxDelayed = ceiling \<rparr> \<rparr>,
     global = None,
     visitors = [''203.0.113.7'' \<mapsto>
       \<lparr> name = [], limiter = rate_NewLimiter (500 * millisecond) 3, vtype = user,
         firstSeen = 0, lastSeen = 0, delayCount = 0, currDelays = inflight \<rparr>] \<rparr>"

subsection \<open>The ceiling on delayed requests\<close>

lemma sint_succ:
  fixes c :: "64 word"
  assumes "sint c < 2 ^ 63 - 1"
  shows "sint (c + 1) = sint c + 1"
proof -
  have lo: "- (2 ^ 63) \<le> sint c" using sint_ge [of c] by simp
  have "sint (c + 1) = signed_take_bit 63 (sint c + 1)"
    by (simp add: sint_word_ariths)
  also have "\<dots> = sint c + 1"
    by (rule signed_take_bit_int_eq_self) (use lo assms in simp_all)
  finally show ?thesis .
qed

lemma sint_ceiling:
  fixes m :: "64 word"
  assumes "uint m < 2 ^ 63"
  shows "sint m = uint m"
proof -
  have nn: "0 \<le> uint m" by simp
  have "sint m = signed_take_bit 63 (uint m)" by (simp add: sint_uint)
  also have "\<dots> = uint m"
  proof (rule signed_take_bit_int_eq_self)
    have "(0::int) \<le> 2 ^ 63" by simp
    with nn show "- (2 ^ 63) \<le> uint m" by linarith
    show "uint m < 2 ^ 63" by (rule assms)
  qed
  finally show ?thesis .
qed

lemma word_pos_uint: "0 < (m :: 64 word) \<longleftrightarrow> 0 < uint m"
  by (simp add: word_less_def)

lemma reject_iff:
  fixes m c :: "64 word"
  assumes m: "uint m < 2 ^ 63" and c: "sint c < 2 ^ 63 - 1"
  shows "(0 < m \<and> sint m < sint (c + 1)) \<longleftrightarrow> (0 < uint m \<and> uint m < sint c + 1)"
  by (simp only: sint_ceiling [OF m] sint_succ [OF c] word_pos_uint)

lemma visitorDelay_in_range:
  assumes v: "visitors r ip = Some v"
    and m: "uint (maxDelayed_of (vars r) (vtype v)) < 2 ^ 63"
    and c: "sint (currDelays v) < 2 ^ 63 - 1"
  shows "fst (visitorDelay r ip delay now)
           = (if 0 < uint (maxDelayed_of (vars r) (vtype v))
                 \<and> uint (maxDelayed_of (vars r) (vtype v)) < sint (currDelays v) + 1
              then Some ErrTooManyRequests else None)
       \<and> snd (snd (visitorDelay r ip delay now))
           = (if 0 < uint (maxDelayed_of (vars r) (vtype v))
                 \<and> uint (maxDelayed_of (vars r) (vtype v)) < sint (currDelays v) + 1
              then [LogWarn ''%s(%d) %s: exceeded max limit of %d; tot limits = %d'']
              else [LogInfo ''%s(%d) %s: limited for %s; tot limits = %d; curr limits = %d'',
                    Sleep delay])"
proof -
  note r = reject_iff [OF m c]
  show ?thesis
  proof (cases "0 < maxDelayed_of (vars r) (vtype v)
                 \<and> sint (maxDelayed_of (vars r) (vtype v)) < sint (currDelays v + 1)")
    case True
    then show ?thesis using v r by (simp add: visitorDelay_def getVisitorEntry_def Let_def)
  next
    case False
    then show ?thesis using v r by (simp add: visitorDelay_def getVisitorEntry_def Let_def)
  qed
qed

lemma getLimiter_visitor:
  "\<exists>v. visitors (fst (snd (getLimiter r sh ip info now))) ip = Some v"
  by (auto simp: getLimiter_def getExistingLimiter_def getVisitorEntry_def getNewLimiter_def
        upgradeIfGoodBot_def downgradeIfBadBot_def isGoodBot_def isBadBot_def createVisitor_def
        Let_def split: option.split prod.split)

lemma getLimiter_no_sleep:
  "Sleep d \<notin> set (snd (snd (getLimiter r sh ip info now)))
   \<and> CancelReservation \<notin> set (snd (snd (getLimiter r sh ip info now)))"
  by (auto simp: getLimiter_def getExistingLimiter_def getVisitorEntry_def getNewLimiter_def
        upgradeIfGoodBot_def downgradeIfBadBot_def isGoodBot_def isBadBot_def createVisitor_def
        logNewVisitor_def Let_def split: option.split prod.split)

text \<open>
  A request with a positive delay, under a ceiling below \<open>2^63\<close> and a counter
  that does not overflow: it is rejected without any sleep and with its reservation
  cancelled exactly when the ceiling is positive and the count, this request included,
  is above it; otherwise it sleeps out the delay and \<open>limit\<close> returns no error.
\<close>

lemma limit_delayed_request:
  assumes ip: "ip \<noteq> []" and d: "0 < vdelay"
    and g: "getLimiter r sh ip info now = (lim, r1, evs1)"
    and v: "visitors r1 ip = Some v"
    and m: "uint (maxDelayed_of (vars r1) (vtype v)) < 2 ^ 63"
    and c: "sint (currDelays v) < 2 ^ 63 - 1"
  shows "if 0 < uint (maxDelayed_of (vars r1) (vtype v))
            \<and> uint (maxDelayed_of (vars r1) (vtype v)) < sint (currDelays v) + 1
         then fst (limit r sh ip info now vdelay gdelay) = Some ErrTooManyRequests
            \<and> (\<forall>t. Sleep t \<notin> set (snd (snd (limit r sh ip info now vdelay gdelay))))
            \<and> CancelReservation \<in> set (snd (snd (limit r sh ip info now vdelay gdelay)))
         else fst (limit r sh ip info now vdelay gdelay) = None
            \<and> Sleep vdelay \<in> set (snd (snd (limit r sh ip info now vdelay gdelay)))
            \<and> CancelReservation \<notin> set (snd (snd (limit r sh ip info now vdelay gdelay)))"
proof -
  obtain e r2 evs2 where vd: "visitorDelay r1 ip vdelay now = (e, r2, evs2)"
    by (cases "visitorDelay r1 ip vdelay now") auto
  note vr = visitorDelay_in_range [OF v m c, of vdelay now, unfolded vd, simplified]
  have ns: "\<And>t. Sleep t \<notin> set evs1" and nc: "CancelReservation \<notin> set evs1"
    using getLimiter_no_sleep [of _ r sh ip info now] g by auto
  show ?thesis
  proof (cases "0 < uint (maxDelayed_of (vars r1) (vtype v))
            \<and> uint (maxDelayed_of (vars r1) (vtype v)) < sint (currDelays v) + 1")
    case True
    with vr have e: "e = Some ErrTooManyRequests"
      and evs2: "evs2 = [LogWarn ''%s(%d) %s: exceeded max limit of %d; tot limits = %d'']"
      by auto
    show ?thesis using True ip d ns nc
      by (auto simp: limit_def g vd e evs2 Let_def)
  next
    case False
    with vr have e: "e = None"
      and evs2: "evs2 = [LogInfo ''%s(%d) %s: limited for %s; tot limits = %d; curr limits = %d'',
                    Sleep vdelay]"
      by auto
    show ?thesis using False ip d ns nc
      by (auto simp: limit_def g vd e evs2 globalDelay_def Let_def)
  qed
qed

text \<open>
  Claim C4 at a ceiling of \<open>2^63\<close>. \<open>int64(maxDelayed)\<close> is then negative, so the
  first delayed request of a visitor with no other request in flight (a count of 1, far
  below the ceiling) is rejected with \<open>ErrTooManyRequests\<close> and its reservation
  cancelled, where the claim has it sleep out the 500 ms.
\<close>

theorem ceiling_beyond_int64_rejects_every_delay:
  "limit (demo_limiter (2 ^ 63) 0) no_bots ''203.0.113.7'' None 10 (500 * millisecond) 0
   = (Some ErrTooManyRequests,
      (demo_limiter (2 ^ 63) 0) \<lparr> visitors := [''203.0.113.7'' \<mapsto>
         \<lparr> name = [], limiter = rate_NewLimiter (500 * millisecond) 3, vtype = user,
           firstSeen = 0, lastSeen = 10, delayCount = 1, currDelays = 0 \<rparr>] \<rparr>,
      [SetHeader ''Visitor-Name'' ''203.0.113.7'', Reserve ''visitor'',
       LogWarn ''%s(%d) %s: exceeded max limit of %d; tot limits = %d'', CancelReservation])"
  by (simp add: limit_def getLimiter_def getExistingLimiter_def getVisitorEntry_def
        visitorDelay_def maxDelayed_of_def Let_def demo_limiter_def millisecond_def)

lemma visitorDelay_no_ceiling:
  assumes v: "visitors r ip = Some v"
    and z: "maxDelayed_of (vars r) (vtype v) = 0"
  shows "fst (visitorDelay r ip delay now) = None
       \<and> snd (snd (visitorDelay r ip delay now))
           = [LogInfo ''%s(%d) %s: limited for %s; tot limits = %d; curr limits = %d'', Sleep delay]"
  using v z by (simp add: visitorDelay_def getVisitorEntry_def Let_def)

text \<open>
  Claim C10. For a visitor of type \<open>user\<close> or \<open>goodBot\<close> whose rate has
  \<open>MaxDelayed = 0\<close>, \<open>visitorDelay\<close> never returns \<open>ErrTooManyRequests\<close>: whatever
  the number of delayed requests in flight, it returns no error and sleeps out the delay.
  Visitors of the other types have the ceiling 1, and the global rate of the auth
  limiter is built with \<open>MaxDelayed = 0\<close>.
\<close>

theorem zero_ceiling_never_rejects:
  assumes v: "visitors r ip = Some v"
    and z: "(vtype v = user \<and> MaxDelayed (UserRate (vars r)) = 0)
          \<or> (vtype v = goodBot \<and> MaxDelayed (GoodBotRate (vars r)) = 0)"
  shows "fst (visitorDelay r ip delay now) \<noteq> Some ErrTooManyRequests
       \<and> fst (visitorDelay r ip delay now) = None
       \<and> Sleep delay \<in> set (snd (snd (visitorDelay r ip delay now)))
       \<and> maxDelayed_of (vars r) badBot = 1
       \<and> maxDelayed_of (vars r) vt_undefined = 1
       \<and> MaxDelayed (GlobalRate (auth_settings userRate globalRate)) = 0"
proof -
  from z have "maxDelayed_of (vars r) (vtype v) = 0"
    by (auto simp: maxDelayed_of_def)
  from visitorDelay_no_ceiling [OF v this, of delay now]
  show ?thesis by (simp add: maxDelayed_of_def auth_settings_def)
qed

theorem zero_ceiling_never_rejects_witness:
  "fst (visitorDelay (demo_limiter 0 1000) ''203.0.113.7'' (500 * millisecond) 10) = None
   \<and> Sleep (500 * millisecond)
        \<in> set (snd (snd (visitorDelay (demo_limiter 0 1000) ''203.0.113.7'' (500 * millisecond) 10)))"
proof -
  have v: "visitors (demo_limiter 0 1000) ''203.0.113.7''
            = Some \<lparr> name = [], limiter = rate_NewLimiter (500 * millisecond) 3, vtype = user,
                     firstSeen = 0, lastSeen = 0, delayCount = 0, currDelays = 1000 \<rparr>"
    by (simp add: demo_limiter_def)
  have z: "(vtype \<lparr> name = [], limiter = rate_NewLimiter (500 * millisecond) 3, vtype = user,
                     firstSeen = 0, lastSeen = 0, delayCount = 0, currDelays = 1000 \<rparr> = user
             \<and> MaxDelayed (UserRate (vars (demo_limiter 0 1000))) = 0)
          \<or> (vtype \<lparr> name = [], limiter = rate_NewLimiter (500 * millisecond) 3, vtype = user,
                     firstSeen = 0, lastSeen = 0, delayCount = 0, currDelays = 1000 \<rparr> = goodBot
             \<and> MaxDelayed (GoodBotRate (vars (demo_limiter 0 1000))) = 0)"
    by (simp add: demo_limiter_def)
  from zero_ceiling_never_rejects [OF v z, of "500 * millisecond" 10]
  show ?thesis by blast
qed

section \<open>limiter/botcheck.go\<close>

text \<open>
  The resolver (\<open>net.LookupAddr\<close>, \<open>net.LookupIP\<close>) is outside the repository. Its
  answers are the fields of \<open>dns_ext\<close>, indexed by the number of the attempt so that an
  answer may change from one attempt to the next; an IP is the text that
  \<open>IP.String()\<close> prints. \<open>host[0]\<close> and \<open>ipCheck[0]\<close> panic on an empty answer, which
  is the error \<open>Panic\<close> (no resolver returns it). \<open>strings.ToLower\<close> is modelled on
  ASCII letters, which is where the signatures of \<open>uaStrings\<close> live.
\<close>

record userAgent =
  ua_name :: string
  ua_text :: string

definition validDomains :: "string list" where
  "validDomains =
     [''.crawl.baidu.com.'', ''.crawl.baidu.jp.'', ''.crawl.yahoo.net.'', ''.google.com.'',
      ''.googlebot.com.'', ''.neevabot.com.'', ''.qwant.com.'', ''.search.msn.com.'',
      ''.yandex.com.'', ''.yandex.net.'', ''.yandex.ru.'', ''.bot.semrush.com.'']"

definition uaStrings :: "userAgent list" where
  "uaStrings =
     [\<lparr> ua_name = ''Baidu'', ua_text = ''baiduspider'' \<rparr>,
      \<lparr> ua_name = ''Bing'', ua_text = ''bingbot'' \<rparr>,
      \<lparr> ua_name = ''Google'', ua_text = ''googlebot'' \<rparr>,
      \<lparr> ua_name = ''MSN'', ua_text = ''msnbot'' \<rparr>,
      \<lparr> ua_name = ''Neeva'', ua_text = ''neevabot'' \<rparr>,
      \<lparr> ua_name = ''Qwantify'', ua_text = ''qwantify'' \<rparr>,
      \<lparr> ua_name = ''Yahoo'', ua_text = ''yahoo!'' \<rparr>,
      \<lparr> ua_name = ''Yandex'', ua_text = ''yandexbot'' \<rparr>,
      \<lparr> ua_name = ''Semrush'', ua_text = ''semrushbot'' \<rparr>]"

record dns_ext =
  net_LookupAddr :: "nat \<Rightarrow> string \<Rightarrow> error + string list"
  net_LookupIP :: "nat \<Rightarrow> string \<Rightarrow> error + string list"

definition to_lower :: "char \<Rightarrow> char" where
  "to_lower c =
     (if (of_char CHR ''A'' :: nat) \<le> of_char c \<and> (of_char c :: nat) \<le> of_char CHR ''Z''
      then char_of ((of_char c :: nat) + 32) else c)"

definition strings_ToLower :: "string \<Rightarrow> string" where
  "strings_ToLower s = map to_lower s"

definition strings_HasPrefix :: "string \<Rightarrow> string \<Rightarrow> bool" where
  "strings_HasPrefix s p = (take (length p) s = p)"

definition strings_HasSuffix :: "string \<Rightarrow> string \<Rightarrow> bool" where
  "strings_HasSuffix s p = (length p \<le> length s \<and> drop (length s - length p) s = p)"

fun strings_Contains :: "string \<Rightarrow> string \<Rightarrow> bool" where
  "strings_Contains [] sub = (sub = [])"
| "strings_Contains (x # xs) sub = (strings_HasPrefix (x # xs) sub \<or> strings_Contains xs sub)"

definition checkUserAgent :: "string \<Rightarrow> string \<times> bool \<times> event list" where
  "checkUserAgent ua =
     (let ual = strings_ToLower ua in
      case find (\<lambda>s. strings_Contains ual (ua_text s)) uaStrings of
        Some s \<Rightarrow> (ua_name s, True, [LogInfo ''%s(?) ua string bot match: %s''])
      | None \<Rightarrow> ('''', False, []))"

definition getHostName :: "dns_ext \<Rightarrow> nat \<Rightarrow> string \<Rightarrow> (error + string) \<times> event list" where
  "getHostName d attempt ip =
     (case net_LookupAddr d attempt ip of
        Inl err \<Rightarrow> (Inl err, [LogErr ''''])
      | Inr [] \<Rightarrow> (Inl Panic, [])
      | Inr (h # _) \<Rightarrow> (Inr h, []))"

text \<open>
  The loop of \<open>getHostNameLoop\<close>, entered with the current value of \<open>retries\<close>. Every
  pass that does not return increments \<open>retries\<close>, so \<open>retries\<close> also numbers the attempt.
\<close>

function getHostNameLoop_from :: "dns_ext \<Rightarrow> string \<Rightarrow> nat \<Rightarrow> (error + string) \<times> event list" where
  "getHostNameLoop_from d ip retries =
     (case getHostName d retries ip of
        (Inr h, evs) \<Rightarrow> (Inr h, evs)
      | (Inl err, evs) \<Rightarrow>
          if err = Panic then (Inl Panic, evs)
          else if retries + 1 > 3
          then (Inl err, evs @ [LogInfo ''%s(?) too many errors, aborting validation''])
          else (case getHostNameLoop_from d ip (retries + 1) of
                  (res, evs') \<Rightarrow> (res, evs @ [Sleep (2 * second)] @ evs')))"
  by pat_completeness auto
termination
  by (relation "measure (\<lambda>(d, ip, retries). 4 - retries)") auto

definition getHostNameLoop :: "dns_ext \<Rightarrow> string \<Rightarrow> (error + string) \<times> event list" where
  "getHostNameLoop d ip = getHostNameLoop_from d ip 0"

definition checkHostName :: "string \<Rightarrow> bool \<times> event list" where
  "checkHostName h =
     (case find (\<lambda>s. strings_Contains h s) validDomains of
        Some s \<Rightarrow> (True, [LogInfo ''%s(?) hostname bot match: %s''])
      | None \<Rightarrow> (False, []))"

definition validateIPMatch ::
  "dns_ext \<Rightarrow> nat \<Rightarrow> string \<Rightarrow> string \<Rightarrow> (bool \<times> string \<times> error option) \<times> event list"
where
  "validateIPMatch d attempt ip h =
     (case net_LookupIP d attempt h of
        Inl err \<Rightarrow>
          ((False, '''', Some err), [LogInfo ''%s(?) returned error when trying to LookupIP(host): %s''])
      | Inr [] \<Rightarrow> ((False, '''', Some Panic), [])
      | Inr (ip2 # _) \<Rightarrow>
          if ip2 = ip then ((True, ip2, None), [LogInfo ''%s(?) ip forward lookup matches: %s''])
          else ((False, ip2, None), []))"

text \<open>
  The loop of \<open>validateIPMatchLoop\<close>, entered with the value of \<open>retries\<close>, the number of
  the attempt and the events so far. The source never assigns to \<open>retries\<close> inside the
  loop, so the recursive call passes it on unchanged. A loop that does not return is the
  value \<open>None\<close>.
\<close>

partial_function (option) validateIPMatchLoop_from ::
  "dns_ext \<Rightarrow> string \<Rightarrow> string \<Rightarrow> nat \<Rightarrow> nat \<Rightarrow> event list
     \<Rightarrow> ((bool \<times> string \<times> error option) \<times> event list) option"
where
  "validateIPMatchLoop_from d ip h retries attempt acc =
     (case validateIPMatch d attempt ip h of
        ((valid, ip2, None), evs) \<Rightarrow> Some ((valid, ip2, None), acc @ evs)
      | ((valid, ip2, Some err), evs) \<Rightarrow>
          if err = Panic then Some ((False, '''', Some Panic), acc @ evs)
          else if retries > 3
          then Some ((False, '''', Some err),
                     acc @ evs @ [LogInfo ''%s(?) too many errors, aborting validation''])
          else validateIPMatchLoop_from d ip h retries (Suc attempt)
                 (acc @ evs @ [Sleep (2 * second)]))"

definition validateIPMatchLoop ::
  "dns_ext \<Rightarrow> string \<Rightarrow> string \<Rightarrow> ((bool \<times> string \<times> error option) \<times> event list) option"
where
  "validateIPMatchLoop d ip h = validateIPMatchLoop_from d ip h 0 0 []"

definition upgradeLimit ::
  "Limiter \<Rightarrow> sharedResources \<Rightarrow> string \<Rightarrow> string \<Rightarrow> string \<Rightarrow> int
     \<Rightarrow> Limiter \<times> sharedResources \<times> event list"
where
  "upgradeLimit r sh ip h nm now =
     (let sh = sh \<lparr> gbots := (gbots sh)(ip \<mapsto> \<lparr> bot_name = nm, bot_host = h \<rparr>) \<rparr>;
          (v, r) = createVisitor r ip nm goodBot now
      in (r, sh, [LogInfo ''%s(%d) verfied %s Bot'']))"

text \<open>
  The goroutine of the bot verification. It returns the limiter and the registries as it
  leaves them; \<open>None\<close> when it never returns. A panic ends it without a promotion.
\<close>

definition routine ::
  "dns_ext \<Rightarrow> Limiter \<Rightarrow> sharedResources \<Rightarrow> string \<Rightarrow> string \<Rightarrow> int
     \<Rightarrow> (Limiter \<times> sharedResources \<times> event list) option"
where
  "routine d r sh ip ua now =
     (case checkUserAgent ua of
        (nm, False, evs0) \<Rightarrow> Some (r, sh, evs0)
      | (nm, True, evs0) \<Rightarrow>
     (case getHostNameLoop d ip of
        (Inl err, evs1) \<Rightarrow> Some (r, sh, evs0 @ evs1)
      | (Inr h, evs1) \<Rightarrow>
     (case checkHostName h of
        (False, evs2) \<Rightarrow>
          Some (r, sh, evs0 @ evs1 @ evs2
                  @ [LogWarn ''%s(?) ua bot match with unmatched host(%s), possible bad bot''])
      | (True, evs2) \<Rightarrow>
     (case validateIPMatchLoop d ip h of
        None \<Rightarrow> None
      | Some ((valid, ip2, Some err), evs3) \<Rightarrow> Some (r, sh, evs0 @ evs1 @ evs2 @ evs3)
      | Some ((valid, ip2, None), evs3) \<Rightarrow>
          if \<not> valid
          then Some (r, sh, evs0 @ evs1 @ evs2 @ evs3
                       @ [LogWarn ''%s(?) -> %s -> %s mismatches, possible bad bot''])
          else
            let (r, sh, evs4) = upgradeLimit r sh ip h nm now
            in Some (r, sh, evs0 @ evs1 @ evs2 @ evs3 @ evs4)))))"

text \<open>Resolvers to run the model on: one answer for every attempt.\<close>

definition fixed_dns :: "error + string list \<Rightarrow> error + string list \<Rightarrow> dns_ext" where
  "fixed_dns reverse forward =
     \<lparr> net_LookupAddr = (\<lambda>attempt ip. reverse), net_LookupIP = (\<lambda>attempt h. forward) \<rparr>"

subsection \<open>The two lookup loops\<close>

text \<open>A forward lookup that fails at every attempt, with an error the resolver returns.\<close>

definition persistently_failing :: "dns_ext \<Rightarrow> string \<Rightarrow> bool" where
  "persistently_failing d h = (\<forall>n. \<exists>err. net_LookupIP d n h = Inl err \<and> err \<noteq> Panic)"

text \<open>
  The forward loop does not: started with \<open>retries \<le> 3\<close> (it starts with 0) under
  such a lookup, it returns no value.
\<close>

lemma validateIPMatchLoop_from_not_Some:
  assumes "validateIPMatchLoop_from d ip h retries attempt acc = Some y"
  shows "\<not> (persistently_failing d h \<and> retries \<le> 3)"
proof (rule validateIPMatchLoop_from.raw_induct
         [where P = "\<lambda>d ip h retries attempt acc y. \<not> (persistently_failing d h \<and> retries \<le> 3)",
          OF _ assms])
  fix loop :: "dns_ext \<Rightarrow> string \<Rightarrow> string \<Rightarrow> nat \<Rightarrow> nat \<Rightarrow> event list
     \<Rightarrow> ((bool \<times> string \<times> error option) \<times> event list) option"
  fix d ip h retries attempt acc y
  assume ih: "\<And>d ip h retries attempt acc y. loop d ip h retries attempt acc = Some y
                \<Longrightarrow> \<not> (persistently_failing d h \<and> retries \<le> 3)"
  assume body: "(case validateIPMatch d attempt ip h of
      ((valid, ip2, None), evs) \<Rightarrow> Some ((valid, ip2, None), acc @ evs)
      | ((valid, ip2, Some err), evs) \<Rightarrow>
          if err = Panic then Some ((False, [], Some Panic), acc @ evs)
          else if 3 < retries
               then Some ((False, [], Some err),
                      acc @ evs @ [LogInfo ''%s(?) too many errors, aborting validation''])
               else loop d ip h retries (Suc attempt) (acc @ evs @ [Sleep (2 * second)])) = Some y"
  show "\<not> (persistently_failing d h \<and> retries \<le> 3)"
  proof
    assume a: "persistently_failing d h \<and> retries \<le> 3"
    then obtain err where e: "net_LookupIP d attempt h = Inl err" "err \<noteq> Panic"
      unfolding persistently_failing_def by blast
    from a have r: "\<not> 3 < retries" by simp
    from body e r obtain acc' where "loop d ip h retries (Suc attempt) acc' = Some y"
      by (simp add: validateIPMatch_def)
    from ih [OF this] a show False by blast
  qed
qed

lemma validateIPMatchLoop_diverges:
  assumes "persistently_failing d h"
  shows "validateIPMatchLoop d ip h = None"
proof (rule ccontr)
  assume "validateIPMatchLoop d ip h \<noteq> None"
  then obtain y where "validateIPMatchLoop_from d ip h 0 0 [] = Some y"
    by (auto simp: validateIPMatchLoop_def)
  from validateIPMatchLoop_from_not_Some [OF this] assms show False by simp
qed

text \<open>
  The reverse loop gives up: under a lookup that fails at every attempt it makes four
  attempts, sleeps 2 seconds after each of the first three and returns the error.
\<close>

lemma getHostNameLoop_gives_up:
  assumes "\<forall>n. net_LookupAddr d n ip = Inl err" and "err \<noteq> Panic"
  shows "getHostNameLoop d ip =
          (Inl err,
           [LogErr '''', Sleep (2 * second), LogErr '''', Sleep (2 * second),
            LogErr '''', Sleep (2 * second), LogErr '''',
            LogInfo ''%s(?) too many errors, aborting validation''])"
proof -
  have g: "getHostName d n ip = (Inl err, [LogErr ''''])" for n
    using assms by (simp add: getHostName_def)
  have 3: "getHostNameLoop_from d ip 3
            = (Inl err, [LogErr '''', LogInfo ''%s(?) too many errors, aborting validation''])"
    using assms(2) by (subst getHostNameLoop_from.simps) (simp add: g)
  have 2: "getHostNameLoop_from d ip 2
            = (Inl err, [LogErr '''', Sleep (2 * second), LogErr '''',
                         LogInfo ''%s(?) too many errors, aborting validation''])"
    using assms(2) by (subst getHostNameLoop_from.simps) (simp add: g 3)
  have 1: "getHostNameLoop_from d ip 1
            = (Inl err, [LogErr '''', Sleep (2 * second), LogErr '''', Sleep (2 * second), LogErr '''',
                         LogInfo ''%s(?) too many errors, aborting validation''])"
    using assms(2) by (subst getHostNameLoop_from.simps) (simp add: g 2)
  show ?thesis
    unfolding getHostNameLoop_def
    using assms(2) by (subst getHostNameLoop_from.simps) (simp add: g 1)
qed

lemma getHostNameLoop_first:
  "net_LookupAddr d 0 ip = Inr (h # hs) \<Longrightarrow> getHostNameLoop d ip = (Inr h, [])"
  unfolding getHostNameLoop_def
  by (subst getHostNameLoop_from.simps) (simp add: getHostName_def)

lemma validateIPMatchLoop_first:
  "net_LookupIP d 0 h = Inr (ip2 # ips) \<Longrightarrow>
     validateIPMatchLoop d ip h =
       Some (if ip2 = ip then ((True, ip2, None), [LogInfo ''%s(?) ip forward lookup matches: %s''])
             else ((False, ip2, None), []))"
  unfolding validateIPMatchLoop_def
  by (subst validateIPMatchLoop_from.simps) (simp add: validateIPMatch_def)

lemma validateIPMatchLoop_from_valid:
  assumes "validateIPMatchLoop_from d ip h retries attempt acc = Some y"
  shows "fst (fst y) \<longrightarrow> fst (snd (fst y)) = ip"
proof (rule validateIPMatchLoop_from.raw_induct
         [where P = "\<lambda>d ip h retries attempt acc y. fst (fst y) \<longrightarrow> fst (snd (fst y)) = ip",
          OF _ assms])
  fix loop :: "dns_ext \<Rightarrow> string \<Rightarrow> string \<Rightarrow> nat \<Rightarrow> nat \<Rightarrow> event list
     \<Rightarrow> ((bool \<times> string \<times> error option) \<times> event list) option"
  fix d ip h retries attempt acc y
  assume ih: "\<And>d ip h retries attempt acc y. loop d ip h retries attempt acc = Some y
                \<Longrightarrow> fst (fst y) \<longrightarrow> fst (snd (fst y)) = ip"
  assume body: "(case validateIPMatch d attempt ip h of
      ((valid, ip2, None), evs) \<Rightarrow> Some ((valid, ip2, None), acc @ evs)
      | ((valid, ip2, Some err), evs) \<Rightarrow>
          if err = Panic then Some ((False, [], Some Panic), acc @ evs)
          else if 3 < retries
               then Some ((False, [], Some err),
                      acc @ evs @ [LogInfo ''%s(?) too many errors, aborting validation''])
               else loop d ip h retries (Suc attempt) (acc @ evs @ [Sleep (2 * second)])) = Some y"
  from body ih show "fst (fst y) \<longrightarrow> fst (snd (fst y)) = ip"
    by (auto simp: validateIPMatch_def split: sum.splits list.splits if_splits)
qed

subsection \<open>Promotion\<close>

text \<open>
  What a promotion implies in the code: the user agent carries a crawler signature, the
  reverse lookup returned a host that \<open>checkHostName\<close> accepts, and the forward lookup
  of that host returned the visitor's IP first.
\<close>

lemma routine_promotes_only_if:
  assumes "routine d r sh ip ua now = Some (r', sh', evs)" and "sh' \<noteq> sh"
  shows "\<exists>nm h evs0 evs1 evs2 evs3.
           checkUserAgent ua = (nm, True, evs0)
         \<and> getHostNameLoop d ip = (Inr h, evs1)
         \<and> checkHostName h = (True, evs2)
         \<and> validateIPMatchLoop d ip h = Some ((True, ip, None), evs3)
         \<and> sh' = sh \<lparr> gbots := (gbots sh)(ip \<mapsto> \<lparr> bot_name = nm, bot_host = h \<rparr>) \<rparr>"
proof -
  have v: "validateIPMatchLoop d ip h = Some ((True, ip2, e), evs3) \<Longrightarrow> ip2 = ip" for h ip2 e evs3
    using validateIPMatchLoop_from_valid [of d ip h 0 0 "[]" "((True, ip2, e), evs3)"]
    by (simp add: validateIPMatchLoop_def)
  from assms show ?thesis
    by (auto simp: routine_def upgradeLimit_def createVisitor_def Let_def
          split: prod.splits sum.splits option.splits if_splits bool.splits dest: v)
qed

lemma forward_mismatch_no_promotion:
  assumes h: "getHostNameLoop d ip = (Inr h, evs1)"
    and f: "validateIPMatchLoop d ip h = Some ((valid, ip2, e), evs3)"
    and ne: "ip2 \<noteq> ip"
    and r: "routine d r sh ip ua now = Some (r', sh', evs)"
  shows "sh' = sh \<and> r' = r"
proof -
  have "\<not> valid"
    using validateIPMatchLoop_from_valid [of d ip h 0 0 "[]" "((valid, ip2, e), evs3)"] f ne
    by (auto simp: validateIPMatchLoop_def)
  with h f r show ?thesis
    by (auto simp: routine_def split: prod.splits option.splits if_splits bool.splits)
qed

text \<open>
  Claim C3 at a host name that contains a trusted domain without ending in it.
  \<open>checkHostName\<close> tests \<open>strings.Contains\<close>, so the reverse name
  \<open>crawl.google.com.evil.example.\<close>, which ends with none of \<open>validDomains\<close>, is
  accepted; with a forward lookup that answers the visitor's IP, the visitor is entered
  in the good-bot registry and re-created as a good bot.
\<close>

theorem spoofed_hostname_is_promoted:
  "routine (fixed_dns (Inr [''crawl.google.com.evil.example.'']) (Inr [''203.0.113.7'']))
     (demo_limiter 2 0) no_bots ''203.0.113.7'' ''Mozilla/5.0 (compatible; Googlebot/2.1)'' 10
   = Some ((demo_limiter 2 0) \<lparr> visitors := [''203.0.113.7'' \<mapsto>
               \<lparr> name = ''Google'', limiter = rate_NewLimiter (500 * millisecond) 3, vtype = goodBot,
                 firstSeen = 10, lastSeen = 10, delayCount = 0, currDelays = 0 \<rparr>] \<rparr>,
           \<lparr> gbots = [''203.0.113.7'' \<mapsto>
               \<lparr> bot_name = ''Google'', bot_host = ''crawl.google.com.evil.example.'' \<rparr>],
             bbots = Map.empty \<rparr>,
           [LogInfo ''%s(?) ua string bot match: %s'', LogInfo ''%s(?) hostname bot match: %s'',
            LogInfo ''%s(?) ip forward lookup matches: %s'', LogInfo ''%s(%d) verfied %s Bot''])
   \<and> \<not> list_ex (strings_HasSuffix ''crawl.google.com.evil.example.'') validDomains"
proof -
  have ua: "checkUserAgent ''Mozilla/5.0 (compatible; Googlebot/2.1)''
              = (''Google'', True, [LogInfo ''%s(?) ua string bot match: %s''])"
    by code_simp
  have hn: "getHostNameLoop (fixed_dns (Inr [''crawl.google.com.evil.example.'']) (Inr [''203.0.113.7'']))
              ''203.0.113.7'' = (Inr ''crawl.google.com.evil.example.'', [])"
    by (rule getHostNameLoop_first) (simp add: fixed_dns_def)
  have ch: "checkHostName ''crawl.google.com.evil.example.''
              = (True, [LogInfo ''%s(?) hostname bot match: %s''])"
    by code_simp
  have fw: "validateIPMatchLoop (fixed_dns (Inr [''crawl.google.com.evil.example.'']) (Inr [''203.0.113.7'']))
              ''203.0.113.7'' ''crawl.google.com.evil.example.''
            = Some ((True, ''203.0.113.7'', None), [LogInfo ''%s(?) ip forward lookup matches: %s''])"
    using validateIPMatchLoop_first
      [of "fixed_dns (Inr [''crawl.google.com.evil.example.'']) (Inr [''203.0.113.7''])"
          "''crawl.google.com.evil.example.''" "''203.0.113.7''" "[]" "''203.0.113.7''"]
    by (simp add: fixed_dns_def)
  have sfx: "\<not> list_ex (strings_HasSuffix ''crawl.google.com.evil.example.'') validDomains"
    by code_simp
  have "routine (fixed_dns (Inr [''crawl.google.com.evil.example.'']) (Inr [''203.0.113.7'']))
     (demo_limiter 2 0) no_bots ''203.0.113.7'' ''Mozilla/5.0 (compatible; Googlebot/2.1)'' 10
   = Some ((demo_limiter 2 0) \<lparr> visitors := [''203.0.113.7'' \<mapsto>
               \<lparr> name = ''Google'', limiter = rate_NewLimiter (500 * millisecond) 3, vtype = goodBot,
                 firstSeen = 10, lastSeen = 10, delayCount = 0, currDelays = 0 \<rparr>] \<rparr>,
           \<lparr> gbots = [''203.0.113.7'' \<mapsto>
               \<lparr> bot_name = ''Google'', bot_host = ''crawl.google.com.evil.example.'' \<rparr>],
             bbots = Map.empty \<rparr>,
           [LogInfo ''%s(?) ua string bot match: %s'', LogInfo ''%s(?) hostname bot match: %s'',
            LogInfo ''%s(?) ip forward lookup matches: %s'', LogInfo ''%s(%d) verfied %s Bot''])"
    by (simp add: routine_def ua hn ch fw upgradeLimit_def createVisitor_def demo_limiter_def
          no_bots_def Let_def)
  with sfx show ?thesis by blast
qed

text \<open>
  Claim C5 under a forward lookup that always fails: \<open>validateIPMatchLoop\<close> never
  returns, and neither does the verification task that called it, while the reverse loop
  under an always failing reverse lookup returns the error after four attempts and three
  sleeps of 2 seconds.
\<close>

theorem forward_lookup_loop_never_gives_up:
  "validateIPMatchLoop
     (fixed_dns (Inr [''crawl-203-0-113-7.googlebot.com.'']) (Inl (LibError ''no such host'')))
     ''203.0.113.7'' ''crawl-203-0-113-7.googlebot.com.'' = None
   \<and> routine
     (fixed_dns (Inr [''crawl-203-0-113-7.googlebot.com.'']) (Inl (LibError ''no such host'')))
     (demo_limiter 2 0) no_bots ''203.0.113.7'' ''Mozilla/5.0 (compatible; Googlebot/2.1)'' 10 = None
   \<and> getHostNameLoop (fixed_dns (Inl (LibError ''no such host'')) (Inr [])) ''203.0.113.7''
       = (Inl (LibError ''no such host''),
          [LogErr '''', Sleep (2 * second), LogErr '''', Sleep (2 * second),
           LogErr '''', Sleep (2 * second), LogErr '''',
           LogInfo ''%s(?) too many errors, aborting validation''])"
proof -
  have pf: "persistently_failing
              (fixed_dns (Inr [''crawl-203-0-113-7.googlebot.com.'']) (Inl (LibError ''no such host'')))
              ''crawl-203-0-113-7.googlebot.com.''"
    by (simp add: persistently_failing_def fixed_dns_def)
  have fw: "validateIPMatchLoop
     (fixed_dns (Inr [''crawl-203-0-113-7.googlebot.com.'']) (Inl (LibError ''no such host'')))
     ''203.0.113.7'' ''crawl-203-0-113-7.googlebot.com.'' = None"
    by (rule validateIPMatchLoop_diverges [OF pf])
  have ua: "checkUserAgent ''Mozilla/5.0 (compatible; Googlebot/2.1)''
              = (''Google'', True, [LogInfo ''%s(?) ua string bot match: %s''])"
    by code_simp
  have hn: "getHostNameLoop
              (fixed_dns (Inr [''crawl-203-0-113-7.googlebot.com.'']) (Inl (LibError ''no such host'')))
              ''203.0.113.7'' = (Inr ''crawl-203-0-113-7.googlebot.com.'', [])"
    by (rule getHostNameLoop_first) (simp add: fixed_dns_def)
  have ch: "checkHostName ''crawl-203-0-113-7.googlebot.com.''
              = (True, [LogInfo ''%s(?) hostname bot match: %s''])"
    by code_simp
  have rt: "routine
     (fixed_dns (Inr [''crawl-203-0-113-7.googlebot.com.'']) (Inl (LibError ''no such host'')))
     (demo_limiter 2 0) no_bots ''203.0.113.7'' ''Mozilla/5.0 (compatible; Googlebot/2.1)'' 10 = None"
    by (simp add: routine_def ua hn ch fw)
  have rv: "getHostNameLoop (fixed_dns (Inl (LibError ''no such host'')) (Inr [])) ''203.0.113.7''
       = (Inl (LibError ''no such host''),
          [LogErr '''', Sleep (2 * second), LogErr '''', Sleep (2 * second),
           LogErr '''', Sleep (2 * second), LogErr '''',
           LogInfo ''%s(?) too many errors, aborting validation''])"
    by (rule getHostNameLoop_gives_up) (simp_all add: fixed_dns_def)
  from fw rt rv show ?thesis by blast
qed

section \<open>auth: registration checks and the sign-in handler\<close>

text \<open>
  The character predicates of \<open>github.com/cwbriscoe/goutil/str\<close> are outside the
  repository and are the fields of \<open>str_ext\<close>. After the test \<open>s != str.ToASCII(s)\<close> the
  string is ASCII, so ranging over its runes is ranging over its bytes.
\<close>

record str_ext =
  str_ToASCII :: "string \<Rightarrow> string"
  str_IsLower :: "char \<Rightarrow> bool"
  str_IsUpper :: "char \<Rightarrow> bool"
  str_IsDigit :: "char \<Rightarrow> bool"
  str_IsSpecial :: "char \<Rightarrow> bool"
  str_IsSpace :: "char \<Rightarrow> bool"

definition minUsernameLen :: nat where "minUsernameLen = 4"
definition maxUsernameLen :: nat where "maxUsernameLen = 20"
definition minPasswordLen :: nat where "minPasswordLen = 10"
definition maxPasswordLen :: nat where "maxPasswordLen = 32"

text \<open>
  The checks return the message of the JSON error body (\<open>{"error": message}\<close> in the
  source), \<open>None\<close> for \<open>nil\<close>.
\<close>

fun checkUsername_range :: "str_ext \<Rightarrow> bool \<Rightarrow> string \<Rightarrow> string option" where
  "checkUsername_range sx firstChar [] = None"
| "checkUsername_range sx firstChar (c # cs) =
     (if firstChar \<and> \<not> str_IsLower sx c \<and> \<not> str_IsUpper sx c
      then Some ''Invalid user name.  First character has to be alphabetic: [a-z][A-Z].''
      else if \<not> str_IsLower sx c \<and> \<not> str_IsUpper sx c \<and> \<not> str_IsDigit sx c
      then Some ''Invalid user name.  Must only contain characters: [a-z][A-Z][0-9].''
      else checkUsername_range sx False cs)"

definition checkUsername :: "str_ext \<Rightarrow> string \<Rightarrow> string option" where
  "checkUsername sx u =
     (if length u < minUsernameLen \<or> length u > maxUsernameLen
      then Some ''Invalid user name.  Must have a length >= 4 and <= 20.''
      else if u \<noteq> str_ToASCII sx u
      then Some ''Invalid user name.  Must only contain characters: [a-z][A-Z][0-9].''
      else checkUsername_range sx True u)"

text \<open>
  The loop of \<open>checkPassword\<close> over the four flags; \<open>None\<close> is the \<open>default\<close> branch,
  which returns from the function. The final test \<open>!lwr || !upr || !num || !spl\<close> is
  written as the negation of the conjunction.
\<close>

fun checkPassword_range ::
  "str_ext \<Rightarrow> bool \<times> bool \<times> bool \<times> bool \<Rightarrow> string \<Rightarrow> (bool \<times> bool \<times> bool \<times> bool) option"
where
  "checkPassword_range sx flags [] = Some flags"
| "checkPassword_range sx (lwr, upr, num, spl) (c # cs) =
     (if str_IsLower sx c then checkPassword_range sx (True, upr, num, spl) cs
      else if str_IsUpper sx c then checkPassword_range sx (lwr, True, num, spl) cs
      else if str_IsDigit sx c then checkPassword_range sx (lwr, upr, True, spl) cs
      else if str_IsSpecial sx c then checkPassword_range sx (lwr, upr, num, True) cs
      else if str_IsSpace sx c then checkPassword_range sx (lwr, upr, num, spl) cs
      else None)"

definition checkPassword :: "str_ext \<Rightarrow> string \<Rightarrow> string option" where
  "checkPassword sx p =
     (if length p < minPasswordLen \<or> length p > maxPasswordLen
      then Some ''Invalid password.  Must have a length >= 10 and <= 32.''
      else if p \<noteq> str_ToASCII sx p
      then Some ''Invalid password.  Must only contain characters: [a-z][A-Z][0-9][ !#$%&()*+,-./:;<=>?@^_{|}~]''
      else (case checkPassword_range sx (False, False, False, False) p of
              None \<Rightarrow> Some ''Invalid password.  Must only contain characters: [a-z][A-Z][0-9][ !#$%&()*+,-./:;<=>?@^_{|}~]''
            | Some (lwr, upr, num, spl) \<Rightarrow>
                if \<not> (lwr \<and> upr \<and> num \<and> spl)
                then Some ''Invalid password.  Must contain at least one character from each category: [a-z][A-Z][0-9][!#$%&()*+,-./:;<=>?@^_{|}~]''
                else None))"

text \<open>
  The sign-in handler. JWT signing and the database are outside the repository: they
  are the fields of \<open>signin_ext\<close> (\<open>db_QueryRow\<close> is the row that the query of
  \<open>getSecurityInfo\<close> scans, or its error, \<open>ErrNoRows\<close> when no user has the name). A
  request is what the handler reads of it: the result of decoding its body into
  \<open>{user, pass}\<close>, and the subject of its refresh token when \<open>getClaims\<close> accepts one.
  The handler's effect is the list of its events; the status of the response is the first
  \<open>WriteHeader\<close>, and 200 when there is none.
\<close>

record claims =
  Issuer :: string
  Subject :: string
  ClaimsID :: string
  ExpiresAt :: int
  Permissions :: "string list"

record Config =
  ConfigIssuer :: string
  AccessExpire :: int
  RefreshExpire :: int

record signin =
  User :: string
  Pass :: string
  user_id :: int
  permissions :: "string list"
  session :: int
  expires :: int

record signin_ext =
  jwt_SignedString :: "string \<Rightarrow> claims \<Rightarrow> error + string"
  db_QueryRow :: "string \<Rightarrow> error + (int \<times> string \<times> string list)"

record request =
  body :: "error + (string \<times> string)"
  refresh_subject :: "string option"

definition dec_digit :: "int \<Rightarrow> char" where
  "dec_digit d = ''0123456789'' ! nat (d mod 10)"

function dec_digits :: "int \<Rightarrow> string" where
  "dec_digits n =
     (if n < 10 then [dec_digit n] else dec_digits (n div 10) @ [dec_digit (n mod 10)])"
  by pat_completeness auto
termination
  by (relation "measure nat") auto

definition strconv_Itoa :: "int \<Rightarrow> string" where
  "strconv_Itoa i = (if i < 0 then ''-'' @ dec_digits (- i) else dec_digits i)"

definition getSecurityInfo :: "signin_ext \<Rightarrow> signin \<Rightarrow> (error + string) \<times> signin" where
  "getSecurityInfo jx u =
     (case db_QueryRow jx (User u) of
        Inl err \<Rightarrow> (Inl err, u)
      | Inr (i, hash, roles) \<Rightarrow> (Inr hash, u \<lparr> user_id := i, permissions := roles \<rparr>))"

definition setAuthCookie ::
  "signin_ext \<Rightarrow> Auth \<Rightarrow> string \<Rightarrow> claims \<Rightarrow> error option \<times> event list"
where
  "setAuthCookie jx a nm c =
     (case jwt_SignedString jx (secret a) c of
        Inl err \<Rightarrow> (Some err, [WriteHeader 500])
      | Inr tokenString \<Rightarrow> (None, [SetCookie nm tokenString]))"

definition createTokens ::
  "signin_ext \<Rightarrow> tracker_ext \<Rightarrow> Auth \<Rightarrow> Config \<Rightarrow> signin \<Rightarrow> int \<Rightarrow> int
     \<Rightarrow> error option \<times> event list"
where
  "createTokens jx tx a cfg info now draw =
     (let c = \<lparr> Issuer = ConfigIssuer cfg,
                Subject = strconv_Itoa (user_id info) @ ''|'' @ User info,
                ClaimsID = strconv_Itoa (session info),
                ExpiresAt = now + AccessExpire cfg,
                Permissions = permissions info \<rparr>
      in case setAuthCookie jx a ''access'' c of
           (Some err, evs) \<Rightarrow> (Some err, evs @ [LogErr ''createTokens: error setting access cookie''])
         | (None, evs) \<Rightarrow>
      (let c = c \<lparr> ExpiresAt := expires info \<rparr>
       in case setAuthCookie jx a ''refresh'' c of
            (Some err, evs') \<Rightarrow>
              (Some err, evs @ evs' @ [LogErr ''createTokens: error setting refresh cookie''])
          | (None, evs') \<Rightarrow>
      (let c = c \<lparr> Subject := User info, ClaimsID := '''' \<rparr>
       in case setAuthCookie jx a ''session'' c of
            (Some err, evs'') \<Rightarrow>
              (Some err, evs @ evs' @ evs'' @ [LogErr ''createTokens: error setting session cookie''])
          | (None, evs'') \<Rightarrow>
      (case CreateAuthTracker tx (User info) (permissions info) draw of
         (Some err, evs''') \<Rightarrow>
           (Some err, evs @ evs' @ evs'' @ evs'''
                        @ [LogErr ''createTokens: error setting tracking cookie''])
       | (None, evs''') \<Rightarrow> (None, evs @ evs' @ evs'' @ evs''')))))"

definition deleteCookie :: "string \<Rightarrow> event list" where
  "deleteCookie nm = [DeleteCookie nm]"

definition signOutInternal :: "request \<Rightarrow> string \<times> event list" where
  "signOutInternal req =
     (let (u, evs) =
            (case refresh_subject req of
               Some subject \<Rightarrow> (subject, [Go ''deleteSession''])
             | None \<Rightarrow> (''UNKNOWN'', []))
      in (u, evs @ deleteCookie ''id'' @ deleteCookie ''session'' @ deleteCookie ''access''
                @ deleteCookie ''refresh''))"

text \<open>
  \<open>signIn\<close>, branch by branch in the order of the source. The arguments after the
  request are the clock, the draw of \<open>slowDown\<close>, \<open>rand.Int31()\<close> and the draw of the
  tracker. The test \<open>checkUsername(..) != nil || checkPassword(..) != nil\<close> is written as
  the negation of "both are nil".
\<close>

definition signIn ::
  "str_ext \<Rightarrow> auth_ext \<Rightarrow> tracker_ext \<Rightarrow> signin_ext \<Rightarrow> Auth \<Rightarrow> Config \<Rightarrow> request
     \<Rightarrow> int \<Rightarrow> nat \<Rightarrow> int \<Rightarrow> int \<Rightarrow> event list"
where
  "signIn sx x tx jx a cfg req now draw int31 trackerDraw =
     (let (nm, evs0) = signOutInternal req;
          evs0 = evs0 @ (if nm \<noteq> ''UNKNOWN'' then [LogInfo ''%s successful signout''] else [])
      in case body req of
           Inl err \<Rightarrow> evs0 @ [LogErr ''signin: error decoding request body'', WriteHeader 400]
         | Inr (u, p) \<Rightarrow>
      (let usr = \<lparr> User = u, Pass = p, user_id = 0, permissions = [], session = 0, expires = 0 \<rparr>
       in if \<not> (checkUsername sx (User usr) = None \<and> checkPassword sx (Pass usr) = None)
          then evs0 @ [LogWarn ''%s tried to signin with a malformed username or password'',
                       WriteHeader 401]
          else
      (case getSecurityInfo jx usr of
         (Inl err, usr) \<Rightarrow>
           if err = ErrNoRows
           then evs0 @ [LogWarn ''%s tried to signin with an invalid username'', WriteHeader 401]
           else evs0 @ [LogErr ''signin: error getting hash from db'', WriteHeader 500]
       | (Inr hash, usr) \<Rightarrow>
      (case compare x a hash (Pass usr) draw of
         ((valid, Some err), evs1) \<Rightarrow>
           evs0 @ evs1 @ [LogErr ''signin: comparing password'', WriteHeader 500]
       | ((valid, None), evs1) \<Rightarrow>
           if \<not> valid
           then evs0 @ evs1 @ [LogWarn ''%s tried to signin with an invalid password'',
                               WriteHeader 401]
           else
      (let usr = usr \<lparr> expires := now + RefreshExpire cfg \<rparr>;
           usr = usr \<lparr> session := int31 \<rparr>
       in case createTokens jx tx a cfg usr now trackerDraw of
            (Some err, evs2) \<Rightarrow> evs0 @ evs1 @ evs2 @ [WriteHeader 500]
          | (None, evs2) \<Rightarrow>
              evs0 @ evs1 @ evs2 @ [LogInfo ''%s successful signin'', Go ''createSession''])))))"

definition response_status :: "event list \<Rightarrow> nat" where
  "response_status evs =
     (case List.find (\<lambda>e. case e of WriteHeader n \<Rightarrow> True | _ \<Rightarrow> False) evs of
        Some (WriteHeader n) \<Rightarrow> n
      | _ \<Rightarrow> 200)"

text \<open>
  An environment to run the handler on: the ASCII character classes that the messages of
  \<open>checkPassword\<close> list, a database with the one user \<open>alice01\<close>, whose stored value
  is the one \<open>generate\<close> makes of \<open>Str0ng!Pass\<close> under \<open>plain_ext\<close>, and a signer that
  returns the subject.
\<close>

definition in_range :: "char \<Rightarrow> char \<Rightarrow> char \<Rightarrow> bool" where
  "in_range lo hi c = ((of_char lo :: nat) \<le> of_char c \<and> (of_char c :: nat) \<le> of_char hi)"

definition ascii_str :: str_ext where
  "ascii_str = \<lparr>
     str_ToASCII = filter is_ascii,
     str_IsLower = in_range CHR ''a'' CHR ''z'',
     str_IsUpper = in_range CHR ''A'' CHR ''Z'',
     str_IsDigit = in_range CHR ''0'' CHR ''9'',
     str_IsSpecial = (\<lambda>c. c \<in> set ''!#$%&()*+,-./:;<=>?@^_{|}~''),
     str_IsSpace = (\<lambda>c. c = CHR '' '') \<rparr>"

definition demo_db :: signin_ext where
  "demo_db = \<lparr>
     jwt_SignedString = (\<lambda>k c. Inr (Subject c)),
     db_QueryRow =
       (\<lambda>u. if u = ''alice01''
             then Inr (1, ''123456789012$1$2a$12$Fge5at!Cnff.crccre'', [''user''])
             else Inl ErrNoRows) \<rparr>"

definition demo_config :: Config where
  "demo_config = \<lparr> ConfigIssuer = ''goweb'', AccessExpire = 900 * second,
                    RefreshExpire = 336 * hour \<rparr>"

definition demo_request :: "string \<Rightarrow> string \<Rightarrow> request" where
  "demo_request u p = \<lparr> body = Inr (u, p), refresh_subject = None \<rparr>"

subsection \<open>The status of a failed sign-in\<close>

text \<open>
  \<open>compare\<close> has two outcomes only: \<open>(true, nil)\<close>, and \<open>false\<close> with an error. It
  never returns \<open>(false, nil)\<close>, so the branch \<open>if !valid\<close> of \<open>signIn\<close>, the one that
  answers 401 to a wrong password, is never taken.
\<close>

lemma compare_never_false_nil: "fst (compare x a hash pass draw) \<noteq> (False, None)"
  by (simp add: compare_def split: sum.split option.split)

lemma compare_cases:
  "compare x a hash pass draw = ((True, None), slowDown draw)
   \<or> (\<exists>err. compare x a hash pass draw = ((False, Some err), []))"
  by (simp add: compare_def split: sum.split option.split)

lemma response_status_append_log [simp]:
  "response_status (LogInfo m # evs) = response_status evs"
  "response_status (LogWarn m # evs) = response_status evs"
  "response_status (LogErr m # evs) = response_status evs"
  "response_status (DeleteCookie c # evs) = response_status evs"
  "response_status (Go g # evs) = response_status evs"
  "response_status (Sleep t # evs) = response_status evs"
  "response_status (WriteHeader n # evs) = n"
  by (simp_all add: response_status_def)

lemma signOutInternal_status:
  "response_status (snd (signOutInternal req) @ evs) = response_status evs"
  by (simp add: signOutInternal_def deleteCookie_def split: option.split)

text \<open>
  With a user name and a password that pass the checks: an unknown user name is answered
  401, and a known one with a password that does not verify is answered 500.
\<close>

lemma signIn_unknown_user:
  assumes "body req = Inr (u, p)"
    and "checkUsername sx u = None" and "checkPassword sx p = None"
    and "db_QueryRow jx u = Inl ErrNoRows"
  shows "response_status (signIn sx x tx jx a cfg req now draw int31 td) = 401"
  using assms
  by (simp add: signIn_def getSecurityInfo_def signOutInternal_def deleteCookie_def Let_def
        split: option.split)

lemma signIn_wrong_password:
  assumes "body req = Inr (u, p)"
    and "checkUsername sx u = None" and "checkPassword sx p = None"
    and "db_QueryRow jx u = Inr (i, hash, roles)"
    and "fst (compare x a hash p draw) \<noteq> (True, None)"
  shows "response_status (signIn sx x tx jx a cfg req now draw int31 td) = 500"
proof -
  from compare_cases [of x a hash p draw] assms(5)
  obtain err where c: "compare x a hash p draw = ((False, Some err), [])" by auto
  show ?thesis
    using assms(1-4)
    by (simp add: signIn_def getSecurityInfo_def signOutInternal_def deleteCookie_def Let_def
          c split: option.split)
qed

text \<open>
  Claim C2 at two sign-in requests that pass the checks. The unknown user
  \<open>mallory1\<close> is logged as an invalid user name and answered 401; the known user
  \<open>alice01\<close> with a wrong last character in the password is logged as
  \<open>signin: comparing password\<close> and answered 500. The two statuses differ.
\<close>

theorem wrong_password_is_an_internal_error:
  "checkUsername ascii_str ''alice01'' = None
   \<and> checkPassword ascii_str ''Str0ng!Past'' = None
   \<and> checkUsername ascii_str ''mallory1'' = None
   \<and> signIn ascii_str plain_ext demo_codec demo_db demo_auth demo_config
        (demo_request ''mallory1'' ''Str0ng!Past'') 1000 7 42 99
      = [DeleteCookie ''id'', DeleteCookie ''session'', DeleteCookie ''access'', DeleteCookie ''refresh'',
         LogWarn ''%s tried to signin with an invalid username'', WriteHeader 401]
   \<and> signIn ascii_str plain_ext demo_codec demo_db demo_auth demo_config
        (demo_request ''alice01'' ''Str0ng!Past'') 1000 7 42 99
      = [DeleteCookie ''id'', DeleteCookie ''session'', DeleteCookie ''access'', DeleteCookie ''refresh'',
         LogErr ''signin: comparing password'', WriteHeader 500]
   \<and> response_status (signIn ascii_str plain_ext demo_codec demo_db demo_auth demo_config
        (demo_request ''mallory1'' ''Str0ng!Past'') 1000 7 42 99) = 401
   \<and> response_status (signIn ascii_str plain_ext demo_codec demo_db demo_auth demo_config
        (demo_request ''alice01'' ''Str0ng!Past'') 1000 7 42 99) = 500"
  by code_simp

end
